theory Spec2Isabelle
  imports Complex_Main "HOL-Library.Sublist" "HOL-Library.AList"
begin

section \<open>Decimal arithmetic\<close>

text \<open>
  The source computes with Python's \<^verbatim>\<open>decimal.Decimal\<close> under the default context
  (\<^verbatim>\<open>prec=28\<close>, \<^verbatim>\<open>ROUND_HALF_EVEN\<close>). A decimal is modelled by the rational number
  it denotes. Constructing a Decimal from a string is exact; every arithmetic operation
  (\<^verbatim>\<open>+\<close>, \<^verbatim>\<open>-\<close>, \<^verbatim>\<open>*\<close>, \<^verbatim>\<open>/\<close>) returns the exact result rounded to 28 significant
  digits, ties to even; comparisons, \<^verbatim>\<open>min\<close>, \<^verbatim>\<open>max\<close> and \<^verbatim>\<open>abs\<close> are exact.
  \<^verbatim>\<open>quantize\<close> rounds to a fixed number of decimal places with the rounding mode it
  is given (\<^verbatim>\<open>ROUND_HALF_UP\<close> everywhere in the source: ties away from zero).
  The exponent limits of the context and the \<^verbatim>\<open>InvalidOperation\<close> that
  \<^verbatim>\<open>quantize\<close> signals when its result would need more than 28 digits lie outside
  the model.
\<close>

type_synonym decimal = rat

definition round_half_up :: "rat \<Rightarrow> int" where
  "round_half_up x = (if 0 \<le> x then \<lfloor>x + 1 / 2\<rfloor> else - \<lfloor>- x + 1 / 2\<rfloor>)"

definition quantize :: "decimal \<Rightarrow> nat \<Rightarrow> decimal" where
  "quantize d p = of_int (round_half_up (d * 10 ^ p)) / 10 ^ p"

definition round_half_even :: "rat \<Rightarrow> int" where
  "round_half_even x =
     (let f = \<lfloor>x\<rfloor>; r = x - of_int f
      in if r < 1 / 2 then f else if 1 / 2 < r then f + 1 else if even f then f else f + 1)"

text \<open>The number of decimal digits of a positive integer.\<close>

function digits :: "int \<Rightarrow> int" where
  "digits n = (if n < 10 then 1 else 1 + digits (n div 10))"
  by pat_completeness auto
termination
  by (relation "measure nat") auto

definition pow10 :: "int \<Rightarrow> rat" where
  "pow10 s = (if 0 \<le> s then 10 ^ nat s else 1 / 10 ^ nat (- s))"

text \<open>The adjusted exponent of a non-zero decimal: the exponent of its leading digit.\<close>

definition adjusted :: "rat \<Rightarrow> int" where
  "adjusted x =
     (let (a, b) = quotient_of \<bar>x\<bar>; k = digits a - digits b
      in if pow10 k \<le> \<bar>x\<bar> then k else k - 1)"

text \<open>Rounding to the context precision: 28 significant digits, ties to even.\<close>

definition ctx :: "decimal \<Rightarrow> decimal" where
  "ctx x = (if x = 0 then 0
            else let s = adjusted x - 27
                 in of_int (round_half_even (x / pow10 s)) * pow10 s)"

definition dec_add :: "decimal \<Rightarrow> decimal \<Rightarrow> decimal" where
  "dec_add x y = ctx (x + y)"

definition dec_sub :: "decimal \<Rightarrow> decimal \<Rightarrow> decimal" where
  "dec_sub x y = ctx (x - y)"

definition dec_mul :: "decimal \<Rightarrow> decimal \<Rightarrow> decimal" where
  "dec_mul x y = ctx (x * y)"

text \<open>Every division of the source is guarded by a test that the divisor is positive.\<close>

definition dec_div :: "decimal \<Rightarrow> decimal \<Rightarrow> decimal" where
  "dec_div x y = ctx (x / y)"

section \<open>Fixed-point scalars (objects.py)\<close>

datatype error = ValueError | RuntimeError | AttributeError

record Price =
  px_value :: decimal
  px_precision :: nat

record Quantity =
  qty_value :: decimal
  qty_precision :: nat

definition Price_init :: "decimal \<Rightarrow> nat \<Rightarrow> Price" where
  "Price_init v precision = \<lparr>px_value = quantize v precision, px_precision = precision\<rparr>"

text \<open>
  \<^verbatim>\<open>Quantity.__init__\<close> quantizes first and tests the sign of the quantized value.
\<close>

definition Quantity_init :: "decimal \<Rightarrow> nat \<Rightarrow> error + Quantity" where
  "Quantity_init v precision =
     (let d = quantize v precision
      in if d < 0 then Inl ValueError
         else Inr \<lparr>qty_value = d, qty_precision = precision\<rparr>)"

datatype CurrencyType = FIAT | CRYPTO

record Currency =
  code :: string
  cur_precision :: nat
  currency_type :: CurrencyType

record Money =
  amount :: decimal
  currency :: Currency

definition Money_init :: "decimal \<Rightarrow> Currency \<Rightarrow> Money" where
  "Money_init a c = \<lparr>amount = quantize a (cur_precision c), currency = c\<rparr>"

section \<open>Enumerations (enums.py)\<close>

datatype OrderSide = BUY | SELL

datatype OrderType = MARKET | LIMIT | STOP_MARKET | STOP_LIMIT

datatype TimeInForce = GTC | IOC | FOK | GTD | DAY

datatype OrderStatus =
  INITIALIZED | DENIED | SUBMITTED | ACCEPTED | REJECTED | CANCELED | EXPIRED | TRIGGERED
  | PENDING_UPDATE | PENDING_CANCEL | PARTIALLY_FILLED | FILLED

datatype PositionSide = FLAT | LONG | SHORT

datatype OmsType = HEDGING | NETTING

datatype TradingState = ACTIVE | REDUCING | HALTED

text \<open>
  The transition table; a status that is no key of the dictionary (the terminal ones) has
  the empty set, as \<^verbatim>\<open>ORDER_STATUS_TRANSITIONS.get(self.status, set())\<close> gives.
\<close>

fun ORDER_STATUS_TRANSITIONS :: "OrderStatus \<Rightarrow> OrderStatus set" where
  "ORDER_STATUS_TRANSITIONS INITIALIZED = {DENIED, SUBMITTED}"
| "ORDER_STATUS_TRANSITIONS SUBMITTED = {ACCEPTED, REJECTED, CANCELED}"
| "ORDER_STATUS_TRANSITIONS ACCEPTED =
     {CANCELED, EXPIRED, TRIGGERED, PENDING_UPDATE, PENDING_CANCEL, PARTIALLY_FILLED, FILLED}"
| "ORDER_STATUS_TRANSITIONS TRIGGERED =
     {CANCELED, EXPIRED, PENDING_UPDATE, PENDING_CANCEL, PARTIALLY_FILLED, FILLED}"
| "ORDER_STATUS_TRANSITIONS PENDING_UPDATE =
     {ACCEPTED, CANCELED, EXPIRED, TRIGGERED, PARTIALLY_FILLED, FILLED}"
| "ORDER_STATUS_TRANSITIONS PENDING_CANCEL = {CANCELED, ACCEPTED, PARTIALLY_FILLED, FILLED}"
| "ORDER_STATUS_TRANSITIONS PARTIALLY_FILLED =
     {CANCELED, EXPIRED, PENDING_UPDATE, PENDING_CANCEL, PARTIALLY_FILLED, FILLED}"
| "ORDER_STATUS_TRANSITIONS _ = {}"

section \<open>Identifiers and events (identifiers.py, events.py)\<close>

text \<open>
  Identifiers are strings. An \<^verbatim>\<open>InstrumentId\<close> keeps its symbol and venue and is
  compared and hashed by the composed string \<^verbatim>\<open>SYMBOL.VENUE\<close>.
  Of an event the model keeps the fields that the modelled functions read; the random
  \<^verbatim>\<open>event_id\<close> and the trader and account ids are left out. Fields that the source
  dereferences without a test (\<^verbatim>\<open>last_qty\<close>, \<^verbatim>\<open>last_px\<close>, \<^verbatim>\<open>quantity\<close> of the
  initialisation) are present.
\<close>

record InstrumentId =
  symbol :: string
  venue :: string

definition iid_value :: "InstrumentId \<Rightarrow> string" where
  "iid_value i = symbol i @ ''.'' @ venue i"

record OrderInitialized_fields =
  i_strategy_id :: "string option"
  i_instrument_id :: InstrumentId
  i_client_order_id :: string
  i_order_side :: OrderSide
  i_order_type :: OrderType
  i_quantity :: Quantity
  i_time_in_force :: TimeInForce
  i_price :: "Price option"
  i_trigger_price :: "Price option"
  i_ts_event :: int
  i_ts_init :: int

record OrderFilled_fields =
  f_strategy_id :: "string option"
  f_client_order_id :: string
  f_venue_order_id :: "string option"
  f_trade_id :: "string option"
  f_position_id :: "string option"
  f_order_side :: OrderSide
  f_order_type :: OrderType
  f_last_qty :: Quantity
  f_last_px :: Price
  f_currency :: "Currency option"
  f_commission :: "Money option"
  f_ts_event :: int

text \<open>
  The reason of a denial is a text. Two of the risk engine's texts interpolate
  \<^verbatim>\<open>str\<close> of a Quantity, whose notation depends on the representation of the
  Decimal; they are kept as the pair of quantities they are built from.
\<close>

datatype Reason =
    Text string
  | QuantityBelowMinimum Quantity Quantity
  | QuantityAboveMaximum Quantity Quantity

text \<open>
  The other order events: client order id first, \<^verbatim>\<open>ts_event\<close> last; in between the
  reason of a denial or rejection, the venue order id of an acceptance, and the new
  quantity, price and trigger price of an update.
\<close>

datatype OrderEvent =
    OrderInitialized OrderInitialized_fields
  | OrderDenied string Reason int
  | OrderSubmitted string int
  | OrderAccepted string "string option" int
  | OrderRejected string string int
  | OrderCanceled string int
  | OrderExpired string int
  | OrderUpdated string "Quantity option" "Price option" "Price option" int
  | OrderFilled OrderFilled_fields

fun ev_ts_event :: "OrderEvent \<Rightarrow> int" where
  "ev_ts_event (OrderInitialized i) = i_ts_event i"
| "ev_ts_event (OrderDenied c r t) = t"
| "ev_ts_event (OrderSubmitted c t) = t"
| "ev_ts_event (OrderAccepted c v t) = t"
| "ev_ts_event (OrderRejected c r t) = t"
| "ev_ts_event (OrderCanceled c t) = t"
| "ev_ts_event (OrderExpired c t) = t"
| "ev_ts_event (OrderUpdated c q p tp t) = t"
| "ev_ts_event (OrderFilled f) = f_ts_event f"

fun ev_client_order_id :: "OrderEvent \<Rightarrow> string" where
  "ev_client_order_id (OrderInitialized i) = i_client_order_id i"
| "ev_client_order_id (OrderDenied c r t) = c"
| "ev_client_order_id (OrderSubmitted c t) = c"
| "ev_client_order_id (OrderAccepted c v t) = c"
| "ev_client_order_id (OrderRejected c r t) = c"
| "ev_client_order_id (OrderCanceled c t) = c"
| "ev_client_order_id (OrderExpired c t) = c"
| "ev_client_order_id (OrderUpdated c q p tp t) = c"
| "ev_client_order_id (OrderFilled f) = f_client_order_id f"

section \<open>Orders (orders.py)\<close>

text \<open>
  One record for the class \<^verbatim>\<open>Order\<close> and its four subclasses; the subclass is the
  \<^verbatim>\<open>order_type\<close> (each subclass constructor checks it), and \<^verbatim>\<open>price\<close> and
  \<^verbatim>\<open>trigger_price\<close> are the attributes that only some subclasses have.
\<close>

record Order =
  client_order_id :: string
  instrument_id :: InstrumentId
  strategy_id :: "string option"
  side :: OrderSide
  order_type :: OrderType
  quantity :: Quantity
  time_in_force :: TimeInForce
  status :: OrderStatus
  filled_qty :: Quantity
  leaves_qty :: Quantity
  avg_px :: decimal
  venue_order_id :: "string option"
  events :: "OrderEvent list"
  ts_init :: int
  ts_last :: int
  price :: "Price option"
  trigger_price :: "Price option"

definition Order_init :: "OrderInitialized_fields \<Rightarrow> error + Order" where
  "Order_init init =
     (case Quantity_init 0 (qty_precision (i_quantity init)) of
        Inl e \<Rightarrow> Inl e
      | Inr fq \<Rightarrow>
         (case Quantity_init (qty_value (i_quantity init)) (qty_precision (i_quantity init)) of
            Inl e \<Rightarrow> Inl e
          | Inr lq \<Rightarrow>
             Inr \<lparr>client_order_id = i_client_order_id init,
                  instrument_id = i_instrument_id init,
                  strategy_id = i_strategy_id init,
                  side = i_order_side init,
                  order_type = i_order_type init,
                  quantity = i_quantity init,
                  time_in_force = i_time_in_force init,
                  status = INITIALIZED,
                  filled_qty = fq,
                  leaves_qty = lq,
                  avg_px = 0,
                  venue_order_id = None,
                  events = [OrderInitialized init],
                  ts_init = i_ts_init init,
                  ts_last = i_ts_event init,
                  price = None,
                  trigger_price = None\<rparr>))"

definition MarketOrder_init :: "OrderInitialized_fields \<Rightarrow> error + Order" where
  "MarketOrder_init init =
     (if i_order_type init \<noteq> MARKET then Inl ValueError else Order_init init)"

definition LimitOrder_init :: "OrderInitialized_fields \<Rightarrow> error + Order" where
  "LimitOrder_init init =
     (if i_order_type init \<noteq> LIMIT then Inl ValueError
      else if i_price init = None then Inl ValueError
      else case Order_init init of
             Inl e \<Rightarrow> Inl e
           | Inr ord \<Rightarrow> Inr (ord\<lparr>price := i_price init\<rparr>))"

definition StopMarketOrder_init :: "OrderInitialized_fields \<Rightarrow> error + Order" where
  "StopMarketOrder_init init =
     (if i_order_type init \<noteq> STOP_MARKET then Inl ValueError
      else if i_trigger_price init = None then Inl ValueError
      else case Order_init init of
             Inl e \<Rightarrow> Inl e
           | Inr ord \<Rightarrow> Inr (ord\<lparr>trigger_price := i_trigger_price init\<rparr>))"

definition StopLimitOrder_init :: "OrderInitialized_fields \<Rightarrow> error + Order" where
  "StopLimitOrder_init init =
     (if i_order_type init \<noteq> STOP_LIMIT then Inl ValueError
      else if i_trigger_price init = None then Inl ValueError
      else if i_price init = None then Inl ValueError
      else case Order_init init of
             Inl e \<Rightarrow> Inl e
           | Inr ord \<Rightarrow>
               Inr (ord\<lparr>trigger_price := i_trigger_price init, price := i_price init\<rparr>))"

definition is_open :: "Order \<Rightarrow> bool" where
  "is_open ord \<longleftrightarrow>
     status ord \<in> {ACCEPTED, TRIGGERED, PENDING_UPDATE, PENDING_CANCEL, PARTIALLY_FILLED}"

definition is_closed :: "Order \<Rightarrow> bool" where
  "is_closed ord \<longleftrightarrow> status ord \<in> {DENIED, REJECTED, CANCELED, EXPIRED, FILLED}"

text \<open>\<^verbatim>\<open>_check_transition\<close>: the RuntimeError of an invalid transition, or nothing.\<close>

definition Order_check_transition :: "Order \<Rightarrow> OrderStatus \<Rightarrow> error option" where
  "Order_check_transition ord new_status =
     (if new_status \<notin> ORDER_STATUS_TRANSITIONS (status ord) then Some RuntimeError else None)"

text \<open>
  The methods below mutate the order and may raise after some assignments have been made.
  Each returns the exception raised, if any, together with the order as the call leaves it.
\<close>

text \<open>The weighted average price (the first assignment of \<^verbatim>\<open>_apply_filled\<close>).\<close>

definition Order_set_avg_px :: "Order \<Rightarrow> decimal \<Rightarrow> decimal \<Rightarrow> decimal \<Rightarrow> Order" where
  "Order_set_avg_px ord fill_px fill_qty new_filled =
     (if 0 < new_filled
      then ord\<lparr>avg_px := dec_div (dec_add (dec_mul (avg_px ord) (qty_value (filled_qty ord)))
                                        (dec_mul fill_px fill_qty)) new_filled\<rparr>
      else ord)"

definition Order_apply_filled :: "Order \<Rightarrow> OrderFilled_fields \<Rightarrow> error option \<times> Order" where
  "Order_apply_filled ord event =
     (let fill_qty = qty_value (f_last_qty event);
          fill_px = px_value (f_last_px event);
          prev_filled = qty_value (filled_qty ord);
          new_filled = dec_add prev_filled fill_qty;
          o1 = Order_set_avg_px ord fill_px fill_qty new_filled
      in case Quantity_init new_filled (qty_precision (quantity o1)) of
           Inl e \<Rightarrow> (Some e, o1)
         | Inr fq \<Rightarrow>
            (let o2 = o1\<lparr>filled_qty := fq\<rparr>
             in case Quantity_init (dec_sub (qty_value (quantity o2)) new_filled)
                       (qty_precision (quantity o2)) of
                  Inl e \<Rightarrow> (Some e, o2)
                | Inr lq \<Rightarrow>
                   (let o3 = o2\<lparr>leaves_qty := lq\<rparr>;
                        new_status = (if qty_value (leaves_qty o3) = 0 then FILLED
                                      else PARTIALLY_FILLED)
                    in case Order_check_transition o3 new_status of
                         Some e \<Rightarrow> (Some e, o3)
                       | None \<Rightarrow>
                          (let o4 = o3\<lparr>status := new_status\<rparr>
                           in (None, case f_venue_order_id event of
                                       Some v \<Rightarrow> o4\<lparr>venue_order_id := Some v\<rparr>
                                     | None \<Rightarrow> o4)))))"

text \<open>\<^verbatim>\<open>Order._apply_updated\<close>, the method of the base class.\<close>

definition Order_apply_updated_base ::
  "Order \<Rightarrow> Quantity option \<Rightarrow> error option \<times> Order" where
  "Order_apply_updated_base ord qo =
     (let r = (case qo of
                 None \<Rightarrow> (None, ord)
               | Some q \<Rightarrow>
                  (let o1 = ord\<lparr>quantity := q\<rparr>
                   in case Quantity_init (dec_sub (qty_value q) (qty_value (filled_qty o1)))
                             (qty_precision q) of
                        Inl e \<Rightarrow> (Some e, o1)
                      | Inr lq \<Rightarrow> (None, o1\<lparr>leaves_qty := lq\<rparr>)))
      in case fst r of
           Some e \<Rightarrow> r
         | None \<Rightarrow>
            (case Order_check_transition (snd r) ACCEPTED of
               Some e \<Rightarrow> (Some e, snd r)
             | None \<Rightarrow> (None, (snd r)\<lparr>status := ACCEPTED\<rparr>)))"

text \<open>
  The overriding methods of the subclasses call the base method first and then take the
  new price (limit, stop-limit) and trigger price (stop-market, stop-limit).
\<close>

definition Order_apply_updated ::
  "Order \<Rightarrow> Quantity option \<Rightarrow> Price option \<Rightarrow> Price option \<Rightarrow> error option \<times> Order" where
  "Order_apply_updated ord qo po tpo =
     (case Order_apply_updated_base ord qo of
        (Some e, o1) \<Rightarrow> (Some e, o1)
      | (None, o1) \<Rightarrow>
         (let o2 = (if order_type o1 \<in> {LIMIT, STOP_LIMIT} \<and> po \<noteq> None
                    then o1\<lparr>price := po\<rparr> else o1);
              o3 = (if order_type o2 \<in> {STOP_MARKET, STOP_LIMIT} \<and> tpo \<noteq> None
                    then o2\<lparr>trigger_price := tpo\<rparr> else o2)
          in (None, o3)))"

text \<open>\<^verbatim>\<open>_EVENT_TO_STATUS\<close> for the events that are not handled specially.\<close>

fun EVENT_TO_STATUS :: "OrderEvent \<Rightarrow> OrderStatus option" where
  "EVENT_TO_STATUS (OrderInitialized i) = Some INITIALIZED"
| "EVENT_TO_STATUS (OrderDenied c r t) = Some DENIED"
| "EVENT_TO_STATUS (OrderSubmitted c t) = Some SUBMITTED"
| "EVENT_TO_STATUS (OrderAccepted c v t) = Some ACCEPTED"
| "EVENT_TO_STATUS (OrderRejected c r t) = Some REJECTED"
| "EVENT_TO_STATUS (OrderCanceled c t) = Some CANCELED"
| "EVENT_TO_STATUS (OrderExpired c t) = Some EXPIRED"
| "EVENT_TO_STATUS (OrderUpdated c q p tp t) = None"
| "EVENT_TO_STATUS (OrderFilled f) = None"

definition Order_apply_status :: "Order \<Rightarrow> OrderEvent \<Rightarrow> error option \<times> Order" where
  "Order_apply_status ord event =
     (case EVENT_TO_STATUS event of
        None \<Rightarrow> (Some ValueError, ord)
      | Some new_status \<Rightarrow>
         (case Order_check_transition ord new_status of
            Some e \<Rightarrow> (Some e, ord)
          | None \<Rightarrow>
             (let o1 = ord\<lparr>status := new_status\<rparr>
              in (None, case event of
                          OrderAccepted c (Some v) t \<Rightarrow> o1\<lparr>venue_order_id := Some v\<rparr>
                        | _ \<Rightarrow> o1))))"

text \<open>
  \<^verbatim>\<open>Order.apply\<close>: the event is appended and \<^verbatim>\<open>ts_last\<close> set only when the
  dispatched method returned.
\<close>

definition Order_apply :: "Order \<Rightarrow> OrderEvent \<Rightarrow> error option \<times> Order" where
  "Order_apply ord event =
     (let r = (case event of
                 OrderFilled f \<Rightarrow> Order_apply_filled ord f
               | OrderUpdated c qo po tpo t \<Rightarrow> Order_apply_updated ord qo po tpo
               | _ \<Rightarrow> Order_apply_status ord event)
      in case fst r of
           Some e \<Rightarrow> r
         | None \<Rightarrow> (None, (snd r)\<lparr>events := events (snd r) @ [event],
                                    ts_last := ev_ts_event event\<rparr>))"

section \<open>Positions (position.py)\<close>

record Position =
  pos_instrument_id :: InstrumentId
  pos_id :: string
  pos_strategy_id :: "string option"
  pos_currency :: "Currency option"
  pos_side :: PositionSide
  pos_quantity :: Quantity
  signed_qty :: decimal
  avg_px_open :: decimal
  avg_px_close :: decimal
  realized_pnl :: decimal
  commissions :: "(Currency \<times> decimal) list"
  pos_events :: "OrderFilled_fields list"
  pos_qty_precision :: nat
  pos_px_precision :: nat

definition Position_update_side_and_qty :: "Position \<Rightarrow> error + Position" where
  "Position_update_side_and_qty p =
     (let p1 = (if 0 < signed_qty p then p\<lparr>pos_side := LONG\<rparr>
                else if signed_qty p < 0 then p\<lparr>pos_side := SHORT\<rparr>
                else p\<lparr>pos_side := FLAT\<rparr>)
      in case Quantity_init \<bar>signed_qty p1\<bar> (pos_qty_precision p1) of
           Inl e \<Rightarrow> Inl e
         | Inr q \<Rightarrow> Inr (p1\<lparr>pos_quantity := q\<rparr>))"

definition Position_apply_buy :: "Position \<Rightarrow> decimal \<Rightarrow> decimal \<Rightarrow> error + Position" where
  "Position_apply_buy p fill_qty fill_px =
     Position_update_side_and_qty
       (if pos_side p = FLAT \<or> pos_side p = LONG then
          (let total_qty = dec_add \<bar>signed_qty p\<bar> fill_qty;
               p1 = (if 0 < total_qty
                     then p\<lparr>avg_px_open :=
                            dec_div (dec_add (dec_mul (avg_px_open p) \<bar>signed_qty p\<bar>)
                                             (dec_mul fill_px fill_qty)) total_qty\<rparr>
                     else p)
           in p1\<lparr>signed_qty := dec_add (signed_qty p1) fill_qty\<rparr>)
        else if pos_side p = SHORT then
          (let close_qty = min fill_qty \<bar>signed_qty p\<bar>;
               pnl = dec_mul close_qty (dec_sub (avg_px_open p) fill_px);
               p1 = p\<lparr>realized_pnl := dec_add (realized_pnl p) pnl\<rparr>;
               remaining = dec_sub fill_qty close_qty;
               p2 = p1\<lparr>signed_qty := dec_add (signed_qty p1) fill_qty\<rparr>
           in if 0 < remaining then p2\<lparr>avg_px_open := fill_px, avg_px_close := fill_px\<rparr>
              else if signed_qty p2 = 0 then p2\<lparr>avg_px_close := fill_px\<rparr>
              else p2)
        else p)"

definition Position_apply_sell :: "Position \<Rightarrow> decimal \<Rightarrow> decimal \<Rightarrow> error + Position" where
  "Position_apply_sell p fill_qty fill_px =
     Position_update_side_and_qty
       (if pos_side p = FLAT \<or> pos_side p = SHORT then
          (let total_qty = dec_add \<bar>signed_qty p\<bar> fill_qty;
               p1 = (if 0 < total_qty
                     then p\<lparr>avg_px_open :=
                            dec_div (dec_add (dec_mul (avg_px_open p) \<bar>signed_qty p\<bar>)
                                             (dec_mul fill_px fill_qty)) total_qty\<rparr>
                     else p)
           in p1\<lparr>signed_qty := dec_sub (signed_qty p1) fill_qty\<rparr>)
        else if pos_side p = LONG then
          (let close_qty = min fill_qty \<bar>signed_qty p\<bar>;
               pnl = dec_mul close_qty (dec_sub fill_px (avg_px_open p));
               p1 = p\<lparr>realized_pnl := dec_add (realized_pnl p) pnl\<rparr>;
               remaining = dec_sub fill_qty close_qty;
               p2 = p1\<lparr>signed_qty := dec_sub (signed_qty p1) fill_qty\<rparr>
           in if 0 < remaining then p2\<lparr>avg_px_open := fill_px, avg_px_close := fill_px\<rparr>
              else if signed_qty p2 = 0 then p2\<lparr>avg_px_close := fill_px\<rparr>
              else p2)
        else p)"

text \<open>The commission of the fill is added to the position's commissions by currency.\<close>

definition Position_track_commission :: "Position \<Rightarrow> OrderFilled_fields \<Rightarrow> Position" where
  "Position_track_commission p fill =
     (case f_commission fill of
        None \<Rightarrow> p
      | Some c \<Rightarrow>
          p\<lparr>commissions :=
              AList.update (currency c)
                (dec_add (case map_of (commissions p) (currency c) of
                            None \<Rightarrow> 0 | Some a \<Rightarrow> a) (amount c))
                (commissions p)\<rparr>)"

definition Position_apply :: "Position \<Rightarrow> OrderFilled_fields \<Rightarrow> error + Position" where
  "Position_apply p fill =
     (let fill_qty = qty_value (f_last_qty fill);
          fill_px = px_value (f_last_px fill);
          p1 = Position_track_commission p fill
      in case (if f_order_side fill = BUY then Position_apply_buy p1 fill_qty fill_px
               else Position_apply_sell p1 fill_qty fill_px) of
           Inl e \<Rightarrow> Inl e
         | Inr p2 \<Rightarrow> Inr (p2\<lparr>pos_events := pos_events p2 @ [fill]\<rparr>))"

definition Position_init ::
  "InstrumentId \<Rightarrow> string \<Rightarrow> OrderFilled_fields \<Rightarrow> error + Position" where
  "Position_init iid position_id fill =
     (case Quantity_init 0 (qty_precision (f_last_qty fill)) of
        Inl e \<Rightarrow> Inl e
      | Inr q0 \<Rightarrow>
          Position_apply
            \<lparr>pos_instrument_id = iid,
             pos_id = position_id,
             pos_strategy_id = f_strategy_id fill,
             pos_currency = f_currency fill,
             pos_side = FLAT,
             pos_quantity = q0,
             signed_qty = 0,
             avg_px_open = 0,
             avg_px_close = 0,
             realized_pnl = 0,
             commissions = [],
             pos_events = [],
             pos_qty_precision = qty_precision (f_last_qty fill),
             pos_px_precision = px_precision (f_last_px fill)\<rparr>
            fill)"

definition pos_is_open :: "Position \<Rightarrow> bool" where
  "pos_is_open p \<longleftrightarrow> pos_side p \<noteq> FLAT"

definition pos_is_closed :: "Position \<Rightarrow> bool" where
  "pos_is_closed p \<longleftrightarrow> pos_side p = FLAT \<and> 0 < length (pos_events p)"

section \<open>Instruments and market data (instruments.py, data.py)\<close>

text \<open>
  Of an instrument, a bar and a tick the model keeps the fields that the modelled
  functions read.
\<close>

record Instrument =
  ins_id :: InstrumentId
  price_precision :: nat
  size_precision :: nat
  taker_fee :: decimal
  min_quantity :: "Quantity option"
  max_quantity :: "Quantity option"

record Bar =
  bar_instrument_id :: InstrumentId
  bar_spec :: string
  b_open :: Price
  b_high :: Price
  b_low :: Price
  b_close :: Price
  b_volume :: Quantity
  bar_ts_event :: int

record Tick =
  tick_instrument_id :: InstrumentId
  tick_ts_event :: int

datatype Datum = DBar Bar | DQuoteTick Tick | DTradeTick Tick

fun datum_ts_event :: "Datum \<Rightarrow> int" where
  "datum_ts_event (DBar b) = bar_ts_event b"
| "datum_ts_event (DQuoteTick t) = tick_ts_event t"
| "datum_ts_event (DTradeTick t) = tick_ts_event t"

section \<open>Accounts (account.py)\<close>

record AccountBalance =
  total :: Money
  locked :: Money
  free :: Money

record Account =
  balances :: "(Currency \<times> AccountBalance) list"
  acc_commissions :: "(Currency \<times> decimal) list"

definition balance_total :: "Account \<Rightarrow> Currency \<Rightarrow> Money option" where
  "balance_total acc c = map_option total (map_of (balances acc) c)"

definition balance_free :: "Account \<Rightarrow> Currency \<Rightarrow> Money option" where
  "balance_free acc c = map_option free (map_of (balances acc) c)"

definition update_balance :: "Account \<Rightarrow> Currency \<Rightarrow> decimal \<Rightarrow> decimal \<Rightarrow> Account" where
  "update_balance acc c tot lck =
     (let fr = dec_sub tot lck
      in acc\<lparr>balances :=
               AList.update c \<lparr>total = Money_init tot c, locked = Money_init lck c,
                               free = Money_init fr c\<rparr> (balances acc)\<rparr>)"

definition update_commissions :: "Account \<Rightarrow> Currency \<Rightarrow> decimal \<Rightarrow> Account" where
  "update_commissions acc c a =
     acc\<lparr>acc_commissions :=
           AList.update c (dec_add (case map_of (acc_commissions acc) c of
                                      None \<Rightarrow> 0 | Some x \<Rightarrow> x) a)
             (acc_commissions acc)\<rparr>"

section \<open>The engine state\<close>

text \<open>
  The backtest engine owns one cache, one message bus, one risk engine, one execution
  engine and one simulated exchange per venue; they are one state here. A Python
  dictionary is an association list in insertion order. An order is identified by its
  client order id: the exchange's list of open orders holds the ids of the order objects
  that the cache holds. The subscribers of the message bus are the strategies; what is
  published is recorded, and the strategies' handlers of order and position events are
  taken to leave the engine as it is (the handlers of the base class do nothing).
\<close>

datatype Message =
    OrderMsg OrderEvent
  | PositionOpened string
  | PositionChanged string
  | PositionClosed string
  | BarMsg Bar
  | QuoteTickMsg Tick
  | TradeTickMsg Tick

record Cache =
  c_instruments :: "(string \<times> Instrument) list"
  c_orders :: "(string \<times> Order) list"
  c_orders_by_venue :: "(string \<times> string list) list"
  c_orders_by_strategy :: "(string \<times> string list) list"
  c_orders_by_instrument :: "(string \<times> string list) list"
  c_positions :: "(string \<times> Position) list"
  c_positions_by_venue :: "(string \<times> string list) list"
  c_positions_by_strategy :: "(string \<times> string list) list"
  c_positions_by_instrument :: "(string \<times> string list) list"
  c_bars :: "(string \<times> Bar list) list"
  c_quote_ticks :: "(string \<times> Tick list) list"
  c_trade_ticks :: "(string \<times> Tick list) list"

record Exchange =
  ex_venue :: string
  ex_oms_type :: OmsType
  ex_base_currency :: Currency
  ex_account :: Account
  ex_instruments :: "(string \<times> Instrument) list"
  ex_open_orders :: "string list"
  ex_venue_order_counter :: nat
  ex_trade_counter :: nat

record Engine =
  cache :: Cache
  trading_state :: TradingState
  exchanges :: "(string \<times> Exchange) list"
  position_counter :: nat
  published :: "(string \<times> Message) list"

text \<open>\<^verbatim>\<open>d.setdefault(k, []).append(x)\<close>\<close>

definition setdefault_append :: "'k \<Rightarrow> 'v \<Rightarrow> ('k \<times> 'v list) list \<Rightarrow> ('k \<times> 'v list) list" where
  "setdefault_append k x d =
     AList.update k ((case map_of d k of None \<Rightarrow> [] | Some xs \<Rightarrow> xs) @ [x]) d"

text \<open>\<^verbatim>\<open>str\<close> of a non-negative integer.\<close>

function str_nat :: "nat \<Rightarrow> string" where
  "str_nat n = (if n < 10 then [char_of (48 + n)]
                else str_nat (n div 10) @ [char_of (48 + n mod 10)])"
  by pat_completeness auto
termination
  by (relation "measure id") auto

declare str_nat.simps [simp del]

definition str_opt :: "string option \<Rightarrow> string" where
  "str_opt s = (case s of None \<Rightarrow> ''None'' | Some x \<Rightarrow> x)"

definition publish :: "string \<Rightarrow> Message \<Rightarrow> Engine \<Rightarrow> Engine" where
  "publish topic msg eng = eng\<lparr>published := published eng @ [(topic, msg)]\<rparr>"

section \<open>The cache (cache.py)\<close>

definition Cache_add_order :: "Order \<Rightarrow> Cache \<Rightarrow> Cache" where
  "Cache_add_order ord c =
     (let oid = client_order_id ord;
          c1 = c\<lparr>c_orders := AList.update oid ord (c_orders c)\<rparr>;
          c2 = c1\<lparr>c_orders_by_venue :=
                    setdefault_append (venue (instrument_id ord)) oid (c_orders_by_venue c1)\<rparr>;
          c3 = (case strategy_id ord of
                  None \<Rightarrow> c2
                | Some sid \<Rightarrow>
                    c2\<lparr>c_orders_by_strategy :=
                          setdefault_append sid oid (c_orders_by_strategy c2)\<rparr>)
      in c3\<lparr>c_orders_by_instrument :=
               setdefault_append (iid_value (instrument_id ord)) oid
                 (c_orders_by_instrument c3)\<rparr>)"

definition Cache_update_order :: "Order \<Rightarrow> Cache \<Rightarrow> Cache" where
  "Cache_update_order ord c = c\<lparr>c_orders := AList.update (client_order_id ord) ord (c_orders c)\<rparr>"

definition Cache_order :: "Cache \<Rightarrow> string \<Rightarrow> Order option" where
  "Cache_order c oid = map_of (c_orders c) oid"

definition by_ids :: "('k \<times> 'v) list \<Rightarrow> 'k list \<Rightarrow> 'v list" where
  "by_ids d ids = List.map_filter (map_of d) ids"

definition Cache_orders :: "Cache \<Rightarrow> InstrumentId option \<Rightarrow> string option \<Rightarrow> Order list" where
  "Cache_orders c iid sid =
     (case iid of
        Some i \<Rightarrow>
          by_ids (c_orders c)
            (case map_of (c_orders_by_instrument c) (iid_value i) of None \<Rightarrow> [] | Some ids \<Rightarrow> ids)
      | None \<Rightarrow>
         (case sid of
            Some s \<Rightarrow>
              by_ids (c_orders c)
                (case map_of (c_orders_by_strategy c) s of None \<Rightarrow> [] | Some ids \<Rightarrow> ids)
          | None \<Rightarrow> map snd (c_orders c)))"

definition Cache_orders_for_venue :: "Cache \<Rightarrow> string \<Rightarrow> Order list" where
  "Cache_orders_for_venue c v =
     by_ids (c_orders c) (case map_of (c_orders_by_venue c) v of None \<Rightarrow> [] | Some ids \<Rightarrow> ids)"

definition Cache_add_position :: "Position \<Rightarrow> Cache \<Rightarrow> Cache" where
  "Cache_add_position p c =
     (let pid = pos_id p;
          c1 = c\<lparr>c_positions := AList.update pid p (c_positions c)\<rparr>;
          c2 = c1\<lparr>c_positions_by_venue :=
                    setdefault_append (venue (pos_instrument_id p)) pid
                      (c_positions_by_venue c1)\<rparr>;
          c3 = (case pos_strategy_id p of
                  None \<Rightarrow> c2
                | Some sid \<Rightarrow>
                    c2\<lparr>c_positions_by_strategy :=
                          setdefault_append sid pid (c_positions_by_strategy c2)\<rparr>)
      in c3\<lparr>c_positions_by_instrument :=
               setdefault_append (iid_value (pos_instrument_id p)) pid
                 (c_positions_by_instrument c3)\<rparr>)"

definition Cache_update_position :: "Position \<Rightarrow> Cache \<Rightarrow> Cache" where
  "Cache_update_position p c = c\<lparr>c_positions := AList.update (pos_id p) p (c_positions c)\<rparr>"

definition Cache_position :: "Cache \<Rightarrow> string \<Rightarrow> Position option" where
  "Cache_position c pid = map_of (c_positions c) pid"

definition Cache_positions :: "Cache \<Rightarrow> InstrumentId option \<Rightarrow> string option \<Rightarrow> Position list"
  where
  "Cache_positions c iid sid =
     (case iid of
        Some i \<Rightarrow>
          by_ids (c_positions c)
            (case map_of (c_positions_by_instrument c) (iid_value i) of
               None \<Rightarrow> [] | Some ids \<Rightarrow> ids)
      | None \<Rightarrow>
         (case sid of
            Some s \<Rightarrow>
              by_ids (c_positions c)
                (case map_of (c_positions_by_strategy c) s of None \<Rightarrow> [] | Some ids \<Rightarrow> ids)
          | None \<Rightarrow> map snd (c_positions c)))"

definition Cache_positions_open :: "Cache \<Rightarrow> InstrumentId option \<Rightarrow> string option \<Rightarrow> Position list"
  where
  "Cache_positions_open c iid sid = filter pos_is_open (Cache_positions c iid sid)"

section \<open>The risk engine (portfolio.py, risk_engine.py)\<close>

definition Portfolio_net_position :: "Cache \<Rightarrow> InstrumentId \<Rightarrow> decimal" where
  "Portfolio_net_position c iid =
     foldl (\<lambda>tot p. dec_add tot (signed_qty p)) 0 (Cache_positions_open c (Some iid) None)"

text \<open>
  The checks of \<^verbatim>\<open>validate_order\<close> on an instrument that was found, in the order of
  the source; the first that fails gives the reason.
\<close>

definition quantity_reason :: "Order \<Rightarrow> Instrument \<Rightarrow> Reason option" where
  "quantity_reason ord instrument =
     (if qty_precision (quantity ord) \<noteq> size_precision instrument
      then Some (Text (''Invalid quantity precision '' @
                       str_nat (qty_precision (quantity ord)) @ '', expected '' @
                       str_nat (size_precision instrument)))
      else case (case min_quantity instrument of
                   None \<Rightarrow> None
                 | Some m \<Rightarrow>
                     if 0 < qty_value m \<and> qty_value (quantity ord) < qty_value m
                     then Some (QuantityBelowMinimum (quantity ord) m) else None) of
             Some r \<Rightarrow> Some r
           | None \<Rightarrow>
              (case max_quantity instrument of
                 None \<Rightarrow> None
               | Some m \<Rightarrow>
                   if 0 < qty_value m \<and> qty_value m < qty_value (quantity ord)
                   then Some (QuantityAboveMaximum (quantity ord) m) else None))"

definition price_reason :: "Order \<Rightarrow> Instrument \<Rightarrow> Reason option" where
  "price_reason ord instrument =
     (case price ord of
        None \<Rightarrow> None
      | Some p \<Rightarrow>
          if px_value p \<le> 0 then Some (Text ''Price must be positive'')
          else if px_precision p \<noteq> price_precision instrument
          then Some (Text (''Invalid price precision '' @ str_nat (px_precision p) @
                           '', expected '' @ str_nat (price_precision instrument)))
          else None)"

definition reducing_reason :: "Engine \<Rightarrow> Order \<Rightarrow> Reason option" where
  "reducing_reason eng ord =
     (if trading_state eng = REDUCING
      then (let net = Portfolio_net_position (cache eng) (instrument_id ord)
            in if (side ord = BUY \<and> 0 \<le> net) \<or> (side ord = SELL \<and> net \<le> 0)
               then Some (Text ''Trading state is REDUCING, only reducing orders allowed'')
               else None)
      else None)"

text \<open>
  \<^verbatim>\<open>RiskEngine.validate_order\<close>: the denial, if any. The event is built without a
  timestamp, so its \<^verbatim>\<open>ts_event\<close> is the default 0.
\<close>

definition RiskEngine_validate_order :: "Engine \<Rightarrow> Order \<Rightarrow> OrderEvent option" where
  "RiskEngine_validate_order eng ord =
     map_option (\<lambda>r. OrderDenied (client_order_id ord) r 0)
       (if trading_state eng = HALTED then Some (Text ''Trading is HALTED'')
        else case map_of (c_instruments (cache eng)) (iid_value (instrument_id ord)) of
          None \<Rightarrow> Some (Text (''No instrument found for '' @ iid_value (instrument_id ord)))
        | Some instrument \<Rightarrow>
           (case quantity_reason ord instrument of
              Some r \<Rightarrow> Some r
            | None \<Rightarrow>
               (case price_reason ord instrument of
                  Some r \<Rightarrow> Some r
                | None \<Rightarrow> reducing_reason eng ord)))"

section \<open>The execution engine (execution_engine.py)\<close>

definition order_topic :: "Order \<Rightarrow> string" where
  "order_topic ord = ''events.order.'' @ str_opt (strategy_id ord)"

definition position_topic :: "Order \<Rightarrow> string" where
  "position_topic ord = ''events.position.'' @ str_opt (strategy_id ord)"

definition ExecutionEngine_handle_order_event :: "OrderEvent \<Rightarrow> Engine \<Rightarrow> error + Engine" where
  "ExecutionEngine_handle_order_event event eng =
     (case Cache_order (cache eng) (ev_client_order_id event) of
        None \<Rightarrow> Inr eng
      | Some ord \<Rightarrow>
         (case Order_apply ord event of
            (Some e, o1) \<Rightarrow> Inl e
          | (None, o1) \<Rightarrow>
              Inr (publish (order_topic o1) (OrderMsg event)
                     (eng\<lparr>cache := Cache_update_order o1 (cache eng)\<rparr>))))"

definition ExecutionEngine_open_position ::
  "OrderFilled_fields \<Rightarrow> Order \<Rightarrow> Engine \<Rightarrow> error + Engine" where
  "ExecutionEngine_open_position event ord eng =
     (let n = position_counter eng + 1;
          position_id = ''P-'' @ str_nat n
      in case Position_init (instrument_id ord) position_id event of
           Inl e \<Rightarrow> Inl e
         | Inr p \<Rightarrow>
             Inr (publish (position_topic ord) (PositionOpened position_id)
                    (eng\<lparr>position_counter := n,
                         cache := Cache_add_position p (cache eng)\<rparr>)))"

text \<open>
  Applying a fill to a position that exists, the same statements in the netting branch
  and in both parts of the hedging branch.
\<close>

definition ExecutionEngine_apply_to_position ::
  "OrderFilled_fields \<Rightarrow> Order \<Rightarrow> Position \<Rightarrow> Engine \<Rightarrow> error + Engine" where
  "ExecutionEngine_apply_to_position event ord p eng =
     (case Position_apply p event of
        Inl e \<Rightarrow> Inl e
      | Inr p1 \<Rightarrow>
          Inr (publish (position_topic ord)
                 (if pos_is_closed p1 then PositionClosed (pos_id p1)
                  else PositionChanged (pos_id p1))
                 (eng\<lparr>cache := Cache_update_position p1 (cache eng)\<rparr>)))"

definition ExecutionEngine_handle_fill_netting ::
  "OrderFilled_fields \<Rightarrow> Order \<Rightarrow> Engine \<Rightarrow> error + Engine" where
  "ExecutionEngine_handle_fill_netting event ord eng =
     (case Cache_positions_open (cache eng) (Some (instrument_id ord)) None of
        p # ps \<Rightarrow> ExecutionEngine_apply_to_position event ord p eng
      | [] \<Rightarrow> ExecutionEngine_open_position event ord eng)"

definition ExecutionEngine_handle_fill_hedging ::
  "OrderFilled_fields \<Rightarrow> Order \<Rightarrow> Engine \<Rightarrow> error + Engine" where
  "ExecutionEngine_handle_fill_hedging event ord eng =
     (case (case f_position_id event of
              None \<Rightarrow> None
            | Some pid \<Rightarrow> Cache_position (cache eng) pid) of
        Some p \<Rightarrow> ExecutionEngine_apply_to_position event ord p eng
      | None \<Rightarrow>
         (case Cache_positions_open (cache eng) (Some (instrument_id ord)) None of
            p # ps \<Rightarrow> ExecutionEngine_apply_to_position event ord p eng
          | [] \<Rightarrow> ExecutionEngine_open_position event ord eng))"

definition ExecutionEngine_handle_fill :: "OrderFilled_fields \<Rightarrow> Engine \<Rightarrow> error + Engine" where
  "ExecutionEngine_handle_fill event eng =
     (case Cache_order (cache eng) (f_client_order_id event) of
        None \<Rightarrow> Inr eng
      | Some ord \<Rightarrow>
         (case Order_apply ord (OrderFilled event) of
            (Some e, o1) \<Rightarrow> Inl e
          | (None, o1) \<Rightarrow>
             (let eng1 = publish (order_topic o1) (OrderMsg (OrderFilled event))
                           (eng\<lparr>cache := Cache_update_order o1 (cache eng)\<rparr>);
                  oms_type = (case map_of (exchanges eng1) (venue (instrument_id o1)) of
                                None \<Rightarrow> HEDGING
                              | Some ex \<Rightarrow> ex_oms_type ex)
              in if oms_type = NETTING
                 then ExecutionEngine_handle_fill_netting event o1 eng1
                 else ExecutionEngine_handle_fill_hedging event o1 eng1)))"

definition ExecutionEngine_process_event :: "OrderEvent \<Rightarrow> Engine \<Rightarrow> error + Engine" where
  "ExecutionEngine_process_event event eng =
     (case event of
        OrderFilled f \<Rightarrow> ExecutionEngine_handle_fill f eng
      | OrderAccepted c v t \<Rightarrow> ExecutionEngine_handle_order_event event eng
      | OrderRejected c r t \<Rightarrow> ExecutionEngine_handle_order_event event eng
      | OrderCanceled c t \<Rightarrow> ExecutionEngine_handle_order_event event eng
      | _ \<Rightarrow> Inr eng)"

section \<open>The simulated exchange (backtest/exchange.py)\<close>

definition map_exchange :: "string \<Rightarrow> (Exchange \<Rightarrow> Exchange) \<Rightarrow> Engine \<Rightarrow> Engine" where
  "map_exchange v f eng = eng\<lparr>exchanges := AList.map_entry v f (exchanges eng)\<rparr>"

text \<open>\<^verbatim>\<open>SimulatedExchange.process_order\<close> of the exchange registered for venue \<open>v\<close>.\<close>

definition Exchange_process_order :: "string \<Rightarrow> Exchange \<Rightarrow> Order \<Rightarrow> Engine \<Rightarrow> error + Engine"
  where
  "Exchange_process_order v ex ord eng =
     (let n = ex_venue_order_counter ex + 1;
          venue_order_id = ''V-'' @ ex_venue ex @ ''-'' @ str_nat n;
          eng1 = map_exchange v (\<lambda>x. x\<lparr>ex_venue_order_counter := n\<rparr>) eng;
          accepted = OrderAccepted (client_order_id ord) (Some venue_order_id) (ts_init ord)
      in case ExecutionEngine_process_event accepted eng1 of
           Inl e \<Rightarrow> Inl e
         | Inr eng2 \<Rightarrow>
             Inr (if order_type ord = MARKET
                  then map_exchange v
                         (\<lambda>x. x\<lparr>ex_open_orders := ex_open_orders x @ [client_order_id ord]\<rparr>) eng2
                  else if order_type ord \<in> {LIMIT, STOP_MARKET, STOP_LIMIT}
                  then map_exchange v
                         (\<lambda>x. x\<lparr>ex_open_orders := ex_open_orders x @ [client_order_id ord]\<rparr>) eng2
                  else eng2))"

text \<open>
  \<^verbatim>\<open>_check_fill\<close>. An order of a type with a price or trigger price that lacks the
  attribute makes the source raise AttributeError; the subclass constructors exclude it.
\<close>

definition Exchange_check_fill :: "Exchange \<Rightarrow> Order \<Rightarrow> Bar \<Rightarrow> error + Price option" where
  "Exchange_check_fill ex ord bar =
     (let price_prec = (case map_of (ex_instruments ex) (iid_value (instrument_id ord)) of
                          Some instrument \<Rightarrow> price_precision instrument
                        | None \<Rightarrow> px_precision (b_open bar))
      in if order_type ord = MARKET then Inr (Some (b_open bar))
         else if order_type ord = LIMIT then
           (case price ord of
              None \<Rightarrow> Inl AttributeError
            | Some limit_px \<Rightarrow>
                if side ord = BUY then
                  (if px_value (b_low bar) \<le> px_value limit_px
                   then Inr (Some (Price_init (min (px_value limit_px) (px_value (b_open bar)))
                                     price_prec))
                   else Inr None)
                else
                  (if px_value limit_px \<le> px_value (b_high bar)
                   then Inr (Some (Price_init (max (px_value limit_px) (px_value (b_open bar)))
                                     price_prec))
                   else Inr None))
         else if order_type ord = STOP_MARKET then
           (case trigger_price ord of
              None \<Rightarrow> Inl AttributeError
            | Some trigger_px \<Rightarrow>
                if side ord = BUY then
                  (if px_value trigger_px \<le> px_value (b_high bar)
                   then Inr (Some (Price_init (max (px_value trigger_px) (px_value (b_open bar)))
                                     price_prec))
                   else Inr None)
                else
                  (if px_value (b_low bar) \<le> px_value trigger_px
                   then Inr (Some (Price_init (min (px_value trigger_px) (px_value (b_open bar)))
                                     price_prec))
                   else Inr None))
         else if order_type ord = STOP_LIMIT then
           (case trigger_price ord of
              None \<Rightarrow> Inl AttributeError
            | Some trigger_px \<Rightarrow>
               (case price ord of
                  None \<Rightarrow> Inl AttributeError
                | Some limit_px \<Rightarrow>
                    if side ord = BUY then
                      (if px_value trigger_px \<le> px_value (b_high bar) \<and>
                          px_value (b_low bar) \<le> px_value limit_px
                       then Inr (Some (Price_init
                                   (min (px_value limit_px)
                                      (max (px_value trigger_px) (px_value (b_open bar))))
                                   price_prec))
                       else Inr None)
                    else
                      (if px_value (b_low bar) \<le> px_value trigger_px \<and>
                          px_value limit_px \<le> px_value (b_high bar)
                       then Inr (Some (Price_init
                                   (max (px_value limit_px)
                                      (min (px_value trigger_px) (px_value (b_open bar))))
                                   price_prec))
                       else Inr None)))
         else Inr None)"

text \<open>The fill event that \<^verbatim>\<open>_fill_order\<close> builds, and the account after the fill.\<close>

definition Exchange_fill_event ::
  "Exchange \<Rightarrow> Order \<Rightarrow> Price \<Rightarrow> int \<Rightarrow> OrderFilled_fields" where
  "Exchange_fill_event ex ord fill_px ts =
     (let commission_rate = (case map_of (ex_instruments ex) (iid_value (instrument_id ord)) of
                               Some instrument \<Rightarrow> taker_fee instrument
                             | None \<Rightarrow> 0);
          fill_qty = leaves_qty ord;
          notional = dec_mul (qty_value fill_qty) (px_value fill_px);
          commission_amount = dec_mul notional commission_rate
      in \<lparr>f_strategy_id = strategy_id ord,
          f_client_order_id = client_order_id ord,
          f_venue_order_id = venue_order_id ord,
          f_trade_id = Some (''T-'' @ ex_venue ex @ ''-'' @ str_nat (ex_trade_counter ex + 1)),
          f_position_id = None,
          f_order_side = side ord,
          f_order_type = order_type ord,
          f_last_qty = fill_qty,
          f_last_px = fill_px,
          f_currency = Some (ex_base_currency ex),
          f_commission = Some (Money_init commission_amount (ex_base_currency ex)),
          f_ts_event = ts\<rparr>)"

definition Exchange_fill_account :: "Exchange \<Rightarrow> Order \<Rightarrow> Price \<Rightarrow> Account" where
  "Exchange_fill_account ex ord fill_px =
     (let commission_rate = (case map_of (ex_instruments ex) (iid_value (instrument_id ord)) of
                               Some instrument \<Rightarrow> taker_fee instrument
                             | None \<Rightarrow> 0);
          notional = dec_mul (qty_value (leaves_qty ord)) (px_value fill_px);
          commission_amount = dec_mul notional commission_rate;
          base = ex_base_currency ex;
          acc = ex_account ex;
          acc1 = (if side ord = BUY then
                    (let cost = dec_add notional commission_amount
                     in case balance_free acc base of
                          None \<Rightarrow> acc
                        | Some current \<Rightarrow>
                            update_balance acc base (dec_sub (amount current) cost) 0)
                  else
                    (let revenue = dec_sub notional commission_amount
                     in case balance_free acc base of
                          None \<Rightarrow> acc
                        | Some current \<Rightarrow>
                            update_balance acc base (dec_add (amount current) revenue) 0))
      in update_commissions acc1 base commission_amount)"

definition Exchange_fill_order ::
  "string \<Rightarrow> Exchange \<Rightarrow> Order \<Rightarrow> Price \<Rightarrow> int \<Rightarrow> Engine \<Rightarrow> error + Engine" where
  "Exchange_fill_order v ex ord fill_px ts eng =
     (let filled = Exchange_fill_event ex ord fill_px ts;
          eng1 = map_exchange v
                   (\<lambda>x. x\<lparr>ex_trade_counter := ex_trade_counter ex + 1,
                           ex_account := Exchange_fill_account ex ord fill_px\<rparr>) eng
      in ExecutionEngine_process_event (OrderFilled filled) eng1)"

text \<open>
  One round of the loop of \<^verbatim>\<open>process_bar\<close>: the engine after it, and whether the order
  is to be removed from the open orders. The order object is read from the cache.
\<close>

definition Exchange_match_order :: "Bar \<Rightarrow> string \<Rightarrow> string \<Rightarrow> Engine \<Rightarrow> error + Engine \<times> bool"
  where
  "Exchange_match_order bar v oid eng =
     (case (Cache_order (cache eng) oid, map_of (exchanges eng) v) of
        (Some ord, Some ex) \<Rightarrow>
          if iid_value (instrument_id ord) \<noteq> iid_value (bar_instrument_id bar)
          then Inr (eng, False)
          else if \<not> is_open ord then Inr (eng, True)
          else (case Exchange_check_fill ex ord bar of
                  Inl e \<Rightarrow> Inl e
                | Inr None \<Rightarrow> Inr (eng, False)
                | Inr (Some fill_px) \<Rightarrow>
                   (case Exchange_fill_order v ex ord fill_px (bar_ts_event bar) eng of
                      Inl e \<Rightarrow> Inl e
                    | Inr eng1 \<Rightarrow> Inr (eng1, True)))
      | _ \<Rightarrow> Inr (eng, False))"

fun Exchange_match_orders ::
  "Bar \<Rightarrow> string \<Rightarrow> string list \<Rightarrow> Engine \<Rightarrow> string list \<Rightarrow> error + Engine \<times> string list" where
  "Exchange_match_orders bar v [] eng orders_to_remove = Inr (eng, orders_to_remove)"
| "Exchange_match_orders bar v (oid # oids) eng orders_to_remove =
     (case Exchange_match_order bar v oid eng of
        Inl e \<Rightarrow> Inl e
      | Inr (eng1, r) \<Rightarrow>
          Exchange_match_orders bar v oids eng1
            (if r then orders_to_remove @ [oid] else orders_to_remove))"

definition Exchange_process_bar :: "string \<Rightarrow> Bar \<Rightarrow> Engine \<Rightarrow> error + Engine" where
  "Exchange_process_bar v bar eng =
     (case map_of (exchanges eng) v of
        None \<Rightarrow> Inr eng
      | Some ex \<Rightarrow>
         (case Exchange_match_orders bar v (ex_open_orders ex) eng [] of
            Inl e \<Rightarrow> Inl e
          | Inr (eng1, orders_to_remove) \<Rightarrow>
              Inr (map_exchange v
                     (\<lambda>x. x\<lparr>ex_open_orders :=
                               foldl (\<lambda>l oid. remove1 oid l) (ex_open_orders x)
                                 orders_to_remove\<rparr>) eng1)))"

text \<open>\<^verbatim>\<open>ExecutionEngine.submit_order\<close>, with the risk engine of the backtest engine.\<close>

definition ExecutionEngine_submit_order :: "Order \<Rightarrow> Engine \<Rightarrow> error + Engine" where
  "ExecutionEngine_submit_order ord eng =
     (case RiskEngine_validate_order eng ord of
        Some denied \<Rightarrow>
         (case Order_apply ord denied of
            (Some e, o1) \<Rightarrow> Inl e
          | (None, o1) \<Rightarrow>
              Inr (publish (order_topic o1) (OrderMsg denied)
                     (eng\<lparr>cache := Cache_update_order o1 (cache eng)\<rparr>)))
      | None \<Rightarrow>
         (let submitted = OrderSubmitted (client_order_id ord) (ts_init ord)
          in case Order_apply ord submitted of
               (Some e, o1) \<Rightarrow> Inl e
             | (None, o1) \<Rightarrow>
                (let eng1 = publish (order_topic o1) (OrderMsg submitted)
                              (eng\<lparr>cache := Cache_add_order o1 (cache eng)\<rparr>);
                     v = venue (instrument_id o1)
                 in case map_of (exchanges eng1) v of
                      None \<Rightarrow> Inr eng1
                    | Some ex \<Rightarrow> Exchange_process_order v ex o1 eng1)))"

section \<open>The data engine and the backtest driver (data_engine.py, backtest/engine.py)\<close>

text \<open>
  The strategies are the subscribers of the data topics and the owners of the timers.
  Their handlers are arbitrary code that may call the execution engine; they are
  parameters of the driver: functions from the engine to the engine or an exception.
\<close>

record Handlers =
  on_start :: "Engine \<Rightarrow> error + Engine"
  on_stop :: "Engine \<Rightarrow> error + Engine"
  on_time :: "int \<Rightarrow> Engine \<Rightarrow> error + Engine"
  on_bar :: "Bar \<Rightarrow> Engine \<Rightarrow> error + Engine"
  on_quote_tick :: "Tick \<Rightarrow> Engine \<Rightarrow> error + Engine"
  on_trade_tick :: "Tick \<Rightarrow> Engine \<Rightarrow> error + Engine"

definition DataEngine_process_bar :: "Handlers \<Rightarrow> Bar \<Rightarrow> Engine \<Rightarrow> error + Engine" where
  "DataEngine_process_bar hs bar eng =
     (let bar_type = iid_value (bar_instrument_id bar) @ ''-'' @ bar_spec bar;
          c = cache eng
      in on_bar hs bar
           (publish (''data.bars.'' @ bar_type) (BarMsg bar)
              (eng\<lparr>cache := c\<lparr>c_bars := setdefault_append bar_type bar (c_bars c)\<rparr>\<rparr>)))"

definition DataEngine_process_quote_tick :: "Handlers \<Rightarrow> Tick \<Rightarrow> Engine \<Rightarrow> error + Engine" where
  "DataEngine_process_quote_tick hs tick eng =
     (let i = iid_value (tick_instrument_id tick);
          c = cache eng
      in on_quote_tick hs tick
           (publish (''data.quotes.'' @ i) (QuoteTickMsg tick)
              (eng\<lparr>cache := c\<lparr>c_quote_ticks := setdefault_append i tick (c_quote_ticks c)\<rparr>\<rparr>)))"

definition DataEngine_process_trade_tick :: "Handlers \<Rightarrow> Tick \<Rightarrow> Engine \<Rightarrow> error + Engine" where
  "DataEngine_process_trade_tick hs tick eng =
     (let i = iid_value (tick_instrument_id tick);
          c = cache eng
      in on_trade_tick hs tick
           (publish (''data.trades.'' @ i) (TradeTickMsg tick)
              (eng\<lparr>cache := c\<lparr>c_trade_ticks := setdefault_append i tick (c_trade_ticks c)\<rparr>\<rparr>)))"

definition get_total_balance :: "Engine \<Rightarrow> decimal" where
  "get_total_balance eng =
     foldl (\<lambda>tot (v, ex). case balance_total (ex_account ex) (ex_base_currency ex) of
                              None \<Rightarrow> tot
                            | Some bal \<Rightarrow> dec_add tot (amount bal))
       0 (exchanges eng)"

text \<open>
  The body of the main loop of \<^verbatim>\<open>run\<close> for one datum, up to the recording of the
  balance: the due timers fire, then a bar goes to the exchange of its venue and to the
  data engine, a tick to the data engine.
\<close>

definition process_datum :: "Handlers \<Rightarrow> Datum \<Rightarrow> Engine \<Rightarrow> error + Engine" where
  "process_datum hs datum eng =
     (case on_time hs (datum_ts_event datum) eng of
        Inl e \<Rightarrow> Inl e
      | Inr eng1 \<Rightarrow>
         (case datum of
            DBar bar \<Rightarrow>
              (case Exchange_process_bar (venue (bar_instrument_id bar)) bar eng1 of
                 Inl e \<Rightarrow> Inl e
               | Inr eng2 \<Rightarrow> DataEngine_process_bar hs bar eng2)
          | DQuoteTick tick \<Rightarrow> DataEngine_process_quote_tick hs tick eng1
          | DTradeTick tick \<Rightarrow> DataEngine_process_trade_tick hs tick eng1))"

fun is_bar :: "Datum \<Rightarrow> bool" where
  "is_bar (DBar b) = True"
| "is_bar _ = False"

fun run_loop ::
  "Handlers \<Rightarrow> Datum list \<Rightarrow> Engine \<Rightarrow> (int \<times> decimal) list
     \<Rightarrow> error + Engine \<times> (int \<times> decimal) list" where
  "run_loop hs [] eng balance_curve = Inr (eng, balance_curve)"
| "run_loop hs (datum # data) eng balance_curve =
     (case process_datum hs datum eng of
        Inl e \<Rightarrow> Inl e
      | Inr eng1 \<Rightarrow>
          run_loop hs data eng1
            (if is_bar datum
             then balance_curve @ [(datum_ts_event datum, get_total_balance eng1)]
             else balance_curve))"

text \<open>The data of a run, sorted (stably) by \<^verbatim>\<open>ts_event\<close> and filtered by the range.\<close>

definition run_data :: "int option \<Rightarrow> int option \<Rightarrow> Datum list \<Rightarrow> Datum list" where
  "run_data start end data =
     (let d0 = sort_key datum_ts_event data;
          d1 = (case start of None \<Rightarrow> d0 | Some s \<Rightarrow> filter (\<lambda>d. s \<le> datum_ts_event d) d0)
      in case end of None \<Rightarrow> d1 | Some e \<Rightarrow> filter (\<lambda>d. datum_ts_event d \<le> e) d1)"

text \<open>
  \<^verbatim>\<open>BacktestEngine.run\<close>, up to the balance curve that the result is built from: the
  engine after the run and the curve.
\<close>

definition run ::
  "Handlers \<Rightarrow> int option \<Rightarrow> int option \<Rightarrow> Datum list \<Rightarrow> Engine
     \<Rightarrow> error + Engine \<times> (int \<times> decimal) list" where
  "run hs start end data0 eng =
     (let data = run_data start end data0
      in case on_start hs eng of
           Inl e \<Rightarrow> Inl e
         | Inr eng1 \<Rightarrow>
            (let starting_balance = get_total_balance eng1;
                 balance_curve = (case data of
                                    [] \<Rightarrow> []
                                  | d # ds \<Rightarrow> [(datum_ts_event d, starting_balance)])
             in case run_loop hs data eng1 balance_curve of
                  Inl e \<Rightarrow> Inl e
                | Inr (eng2, curve) \<Rightarrow>
                   (case on_stop hs eng2 of
                      Inl e \<Rightarrow> Inl e
                    | Inr eng3 \<Rightarrow> Inr (eng3, curve))))"

section \<open>Sequences of events, and what the claims speak of\<close>

text \<open>
  Applying a sequence of events to an order: the orders after each application, up to the
  first application that raises (the exception ends the run).
\<close>

fun Order_apply_trace :: "Order \<Rightarrow> OrderEvent list \<Rightarrow> Order list" where
  "Order_apply_trace ord [] = []"
| "Order_apply_trace ord (e # es) =
     (case Order_apply ord e of
        (None, o1) \<Rightarrow> o1 # Order_apply_trace o1 es
      | (Some err, o1) \<Rightarrow> [])"

text \<open>
  A decimal is exact when the context leaves it as it is (it has at most 28 significant
  digits), and at precision \<open>p\<close> when quantizing to \<open>p\<close> places leaves it as it is.
\<close>

definition exact :: "decimal \<Rightarrow> bool" where
  "exact x \<longleftrightarrow> ctx x = x"

definition at_precision :: "decimal \<Rightarrow> nat \<Rightarrow> bool" where
  "at_precision x p \<longleftrightarrow> quantize x p = x"

text \<open>The invariant \<^verbatim>\<open>filled_qty + leaves_qty = quantity\<close>.\<close>

definition qty_invariant :: "Order \<Rightarrow> bool" where
  "qty_invariant ord \<longleftrightarrow>
     qty_value (filled_qty ord) + qty_value (leaves_qty ord) = qty_value (quantity ord)"

text \<open>
  An event is applied without rounding of a quantity when the sums and differences that
  \<^verbatim>\<open>_apply_filled\<close> and \<^verbatim>\<open>_apply_updated\<close> compute are exact and at the
  precision they are quantized to.
\<close>

definition no_rounding :: "Order \<Rightarrow> OrderEvent \<Rightarrow> bool" where
  "no_rounding ord event =
     (case event of
        OrderFilled f \<Rightarrow>
          (let new_filled = qty_value (filled_qty ord) + qty_value (f_last_qty f);
               leaves = qty_value (quantity ord) - new_filled;
               p = qty_precision (quantity ord)
           in exact new_filled \<and> at_precision new_filled p \<and>
              exact leaves \<and> at_precision leaves p)
      | OrderUpdated c (Some q) po tpo t \<Rightarrow>
          (let leaves = qty_value q - qty_value (filled_qty ord)
           in exact leaves \<and> at_precision leaves (qty_precision q))
      | _ \<Rightarrow> True)"

fun no_rounding_all :: "Order \<Rightarrow> OrderEvent list \<Rightarrow> bool" where
  "no_rounding_all ord [] = True"
| "no_rounding_all ord (e # es) =
     (no_rounding ord e \<and>
      (case Order_apply ord e of
         (None, o1) \<Rightarrow> no_rounding_all o1 es
       | (Some err, o1) \<Rightarrow> True))"

text \<open>
  The fills among the applied events: their total notional \<open>\<Sum> last_px \<cdot> last_qty\<close> and
  their total quantity \<open>\<Sum> last_qty\<close>.
\<close>

fun fill_notional :: "OrderEvent list \<Rightarrow> rat" where
  "fill_notional [] = 0"
| "fill_notional (OrderFilled f # es) =
     px_value (f_last_px f) * qty_value (f_last_qty f) + fill_notional es"
| "fill_notional (e # es) = fill_notional es"

fun fill_quantity :: "OrderEvent list \<Rightarrow> rat" where
  "fill_quantity [] = 0"
| "fill_quantity (OrderFilled f # es) = qty_value (f_last_qty f) + fill_quantity es"
| "fill_quantity (e # es) = fill_quantity es"

text \<open>
  The average price carried by an order agrees with the fills applied so far: \<open>avg_px\<close>
  times the filled quantity is their notional.
\<close>

definition avg_px_invariant :: "Order \<Rightarrow> bool" where
  "avg_px_invariant ord \<longleftrightarrow>
     0 \<le> qty_value (filled_qty ord) \<and>
     fill_quantity (events ord) = qty_value (filled_qty ord) \<and>
     fill_notional (events ord) = avg_px ord * qty_value (filled_qty ord)"

text \<open>
  A fill is applied without rounding of the average when each intermediate result of the
  weighted-average assignment is exact.
\<close>

definition no_avg_rounding :: "Order \<Rightarrow> OrderEvent \<Rightarrow> bool" where
  "no_avg_rounding ord event =
     (case event of
        OrderFilled f \<Rightarrow>
          (let prev_filled = qty_value (filled_qty ord);
               fill_qty = qty_value (f_last_qty f);
               fill_px = px_value (f_last_px f);
               new_filled = prev_filled + fill_qty;
               total = avg_px ord * prev_filled + fill_px * fill_qty
           in 0 \<le> fill_qty \<and> exact new_filled \<and>
              at_precision new_filled (qty_precision (quantity ord)) \<and>
              exact (avg_px ord * prev_filled) \<and> exact (fill_px * fill_qty) \<and>
              exact total \<and> exact (total / new_filled))
      | _ \<Rightarrow> True)"

fun no_avg_rounding_all :: "Order \<Rightarrow> OrderEvent list \<Rightarrow> bool" where
  "no_avg_rounding_all ord [] = True"
| "no_avg_rounding_all ord (e # es) =
     (no_avg_rounding ord e \<and>
      (case Order_apply ord e of
         (None, o1) \<Rightarrow> no_avg_rounding_all o1 es
       | (Some err, o1) \<Rightarrow> True))"

text \<open>
  Opening a position with one fill and applying a second fill to it, as the execution
  engine does for two fills of one instrument.
\<close>

definition open_then_apply ::
  "InstrumentId \<Rightarrow> string \<Rightarrow> OrderFilled_fields \<Rightarrow> OrderFilled_fields \<Rightarrow> error + Position" where
  "open_then_apply iid position_id f1 f2 =
     (case Position_init iid position_id f1 of
        Inl e \<Rightarrow> Inl e
      | Inr p \<Rightarrow> Position_apply p f2)"

text \<open>
  A client order id is unindexed when no list of a secondary index of the cache holds it,
  and the orders of a cache are keyed by id when each is stored under its own client
  order id (as \<^verbatim>\<open>add_order\<close> and \<^verbatim>\<open>update_order\<close> store them).
\<close>

definition unindexed :: "(string \<times> string list) list \<Rightarrow> string \<Rightarrow> bool" where
  "unindexed idx oid \<longleftrightarrow> oid \<notin> set (concat (map snd idx))"

definition order_unindexed :: "Cache \<Rightarrow> string \<Rightarrow> bool" where
  "order_unindexed c oid \<longleftrightarrow>
     unindexed (c_orders_by_instrument c) oid \<and> unindexed (c_orders_by_strategy c) oid \<and>
     unindexed (c_orders_by_venue c) oid"

definition orders_keyed_by_id :: "Cache \<Rightarrow> bool" where
  "orders_keyed_by_id c \<longleftrightarrow> list_all (\<lambda>(k, ord). client_order_id ord = k) (c_orders c)"

subsection \<open>What the matching engine does to a resting order\<close>












section \<open>Example values\<close>

definition Q0 :: "decimal \<Rightarrow> Quantity" where
  "Q0 v = \<lparr>qty_value = v, qty_precision = 0\<rparr>"

definition Q1 :: "decimal \<Rightarrow> Quantity" where
  "Q1 v = \<lparr>qty_value = v, qty_precision = 1\<rparr>"

definition P2 :: "decimal \<Rightarrow> Price" where
  "P2 v = \<lparr>px_value = v, px_precision = 2\<rparr>"

definition AAPL :: InstrumentId where
  "AAPL = \<lparr>symbol = ''AAPL'', venue = ''SIM''\<rparr>"

text \<open>
  A market BUY order of the given status, quantities, average price and applied events,
  and a fill for it.
\<close>

definition example_order ::
  "OrderStatus \<Rightarrow> Quantity \<Rightarrow> Quantity \<Rightarrow> Quantity \<Rightarrow> decimal \<Rightarrow> OrderEvent list \<Rightarrow> Order"
  where
  "example_order st q filled leaves avg evs =
     \<lparr>client_order_id = ''O-001'', instrument_id = AAPL, strategy_id = Some ''S-001'',
      side = BUY, order_type = MARKET, quantity = q, time_in_force = GTC, status = st,
      filled_qty = filled, leaves_qty = leaves, avg_px = avg,
      venue_order_id = Some ''V-SIM-1'', events = evs, ts_init = 0, ts_last = 0,
      price = None, trigger_price = None\<rparr>"

definition example_fill :: "OrderSide \<Rightarrow> Quantity \<Rightarrow> Price \<Rightarrow> OrderFilled_fields" where
  "example_fill s q p =
     \<lparr>f_strategy_id = Some ''S-001'', f_client_order_id = ''O-001'',
      f_venue_order_id = None, f_trade_id = None, f_position_id = None, f_order_side = s,
      f_order_type = MARKET, f_last_qty = q, f_last_px = p, f_currency = None,
      f_commission = None, f_ts_event = 0\<rparr>"

text \<open>
  An engine with one venue SIM (netting, base currency USD, balance 1000000), the
  instrument AAPL.SIM on it (prices at 2 places, sizes at 0), the given trading state,
  cached orders and open orders; a daily bar of AAPL.SIM; and strategies that do nothing.
\<close>

definition USD :: Currency where
  "USD = \<lparr>code = ''USD'', cur_precision = 2, currency_type = FIAT\<rparr>"

definition example_instrument :: Instrument where
  "example_instrument =
     \<lparr>ins_id = AAPL, price_precision = 2, size_precision = 0, taker_fee = 0,
      min_quantity = None, max_quantity = None\<rparr>"

definition example_exchange :: "string list \<Rightarrow> Exchange" where
  "example_exchange oids =
     \<lparr>ex_venue = ''SIM'', ex_oms_type = NETTING, ex_base_currency = USD,
      ex_account =
        \<lparr>balances = [(USD, \<lparr>total = \<lparr>amount = 1000000, currency = USD\<rparr>,
                               locked = \<lparr>amount = 0, currency = USD\<rparr>,
                               free = \<lparr>amount = 1000000, currency = USD\<rparr>\<rparr>)],
         acc_commissions = []\<rparr>,
      ex_instruments = [(''AAPL.SIM'', example_instrument)],
      ex_open_orders = oids, ex_venue_order_counter = 0, ex_trade_counter = 0\<rparr>"

definition example_engine :: "TradingState \<Rightarrow> (string \<times> Order) list \<Rightarrow> string list \<Rightarrow> Engine" where
  "example_engine st orders oids =
     \<lparr>cache =
        \<lparr>c_instruments = [(''AAPL.SIM'', example_instrument)], c_orders = orders,
         c_orders_by_venue = [], c_orders_by_strategy = [], c_orders_by_instrument = [],
         c_positions = [], c_positions_by_venue = [], c_positions_by_strategy = [],
         c_positions_by_instrument = [], c_bars = [], c_quote_ticks = [], c_trade_ticks = []\<rparr>,
      trading_state = st, exchanges = [(''SIM'', example_exchange oids)],
      position_counter = 0, published = []\<rparr>"

definition example_bar :: "int \<Rightarrow> decimal \<Rightarrow> decimal \<Rightarrow> decimal \<Rightarrow> Bar" where
  "example_bar ts o_px h_px l_px =
     \<lparr>bar_instrument_id = AAPL, bar_spec = ''1-DAY-LAST'', b_open = P2 o_px, b_high = P2 h_px,
      b_low = P2 l_px, b_close = P2 o_px, b_volume = Q0 1000, bar_ts_event = ts\<rparr>"

definition no_strategy :: Handlers where
  "no_strategy =
     \<lparr>on_start = Inr, on_stop = Inr, on_time = (\<lambda>t. Inr), on_bar = (\<lambda>b. Inr),
      on_quote_tick = (\<lambda>t. Inr), on_trade_tick = (\<lambda>t. Inr)\<rparr>"


section \<open>Properties of the scalars\<close>

lemma round_half_up_neg_iff: "round_half_up x < 0 \<longleftrightarrow> x \<le> - (1 / 2)"
proof (cases "0 \<le> x")
  case True
  then have "0 \<le> \<lfloor>x + 1 / 2\<rfloor>" by simp
  with True show ?thesis by (simp add: round_half_up_def)
next
  case False
  have "(0 < \<lfloor>- x + 1 / 2\<rfloor>) = (1 \<le> - x + 1 / 2)"
    by (metis int_one_le_iff_zero_less of_int_1 le_floor_iff)
  moreover have "(1 \<le> - x + 1 / 2) = (x \<le> - (1 / 2))" by linarith
  ultimately show ?thesis using False by (simp add: round_half_up_def)
qed

lemma quantize_neg_iff: "quantize v p < 0 \<longleftrightarrow> v * 10 ^ p \<le> - (1 / 2)"
proof -
  have "quantize v p < 0 \<longleftrightarrow> (of_int (round_half_up (v * 10 ^ p)) :: rat) < 0"
    by (simp add: quantize_def divide_less_0_iff)
  also have "\<dots> \<longleftrightarrow> round_half_up (v * 10 ^ p) < 0" by simp
  finally show ?thesis by (simp add: round_half_up_neg_iff)
qed





section \<open>Properties of positions\<close>

lemma ctx_0: "ctx 0 = 0" by (simp add: ctx_def)

lemma round_half_even_minus: "round_half_even (- y) = - round_half_even y"
proof (cases "y \<in> \<int>")
  case True
  then obtain k where "y = of_int k" by (auto elim: Ints_cases)
  then show ?thesis by (simp add: round_half_even_def)
next
  case False
  have "of_int \<lfloor>y\<rfloor> \<noteq> y" using False by (metis Ints_of_int)
  moreover have "of_int \<lfloor>y\<rfloor> \<le> y" by simp
  ultimately have lt: "of_int \<lfloor>y\<rfloor> < y" by linarith
  have ub: "y < of_int \<lfloor>y\<rfloor> + 1" by linarith
  have fl: "\<lfloor>- y\<rfloor> = - \<lfloor>y\<rfloor> - 1"
    by (rule floor_unique) (use lt ub in simp_all)
  show ?thesis
    unfolding round_half_even_def Let_def fl
    using lt ub by (auto simp: algebra_simps)
qed

lemma adjusted_minus: "adjusted (- x) = adjusted x"
  by (simp add: adjusted_def)

lemma ctx_minus: "ctx (- x) = - ctx x"
  by (simp add: ctx_def adjusted_minus Let_def round_half_even_minus)

lemma quantize_abs_nonneg: "\<not> quantize \<bar>x\<bar> p < 0"
proof -
  have "0 \<le> \<bar>x\<bar> * 10 ^ p" by simp
  then show ?thesis unfolding quantize_neg_iff by linarith
qed

lemma Quantity_init_abs:
  "Quantity_init \<bar>x\<bar> p = Inr \<lparr>qty_value = quantize \<bar>x\<bar> p, qty_precision = p\<rparr>"
  by (simp add: Quantity_init_def Let_def quantize_abs_nonneg)

lemma floor_half: "\<lfloor>1 / 2 :: rat\<rfloor> = 0"
  by (rule floor_unique) simp_all

lemma quantize_0: "quantize 0 p = 0"
  by (simp add: quantize_def round_half_up_def floor_half)

lemma Quantity_init_0: "Quantity_init 0 p = Inr \<lparr>qty_value = 0, qty_precision = p\<rparr>"
  by (simp add: Quantity_init_def quantize_0)


lemma Position_update_side_and_qty_eq:
  "Position_update_side_and_qty p =
     Inr (p\<lparr>pos_side := (if 0 < signed_qty p then LONG
                          else if signed_qty p < 0 then SHORT else FLAT),
             pos_quantity := \<lparr>qty_value = quantize \<bar>signed_qty p\<bar> (pos_qty_precision p),
                              qty_precision = pos_qty_precision p\<rparr>\<rparr>)"
  by (simp add: Position_update_side_and_qty_def Quantity_init_abs)

lemma open_flat:
  assumes "pos_side p = FLAT" "signed_qty p = 0" "0 < Q" "ctx Q = Q" "ctx P = P"
    "ctx (P * Q) = P * Q" "realized_pnl p = 0"
  shows "\<exists>a. Position_apply_buy p Q P = Inr a \<and> pos_side a = LONG \<and> signed_qty a = Q \<and>
           avg_px_open a = P \<and> realized_pnl a = 0 \<and> pos_events a = pos_events p"
    and "\<exists>a. Position_apply_sell p Q P = Inr a \<and> pos_side a = SHORT \<and> signed_qty a = - Q \<and>
           avg_px_open a = P \<and> realized_pnl a = 0 \<and> pos_events a = pos_events p"
proof -
  have m: "ctx (- Q) = - Q" using assms by (simp add: ctx_minus)
  have t: "dec_add \<bar>signed_qty p\<bar> Q = Q" using assms by (simp add: dec_add_def)
  have a: "dec_div (dec_add (dec_mul (avg_px_open p) \<bar>signed_qty p\<bar>) (dec_mul P Q)) Q = P"
    using assms by (simp add: dec_add_def dec_mul_def dec_div_def ctx_0)
  show "\<exists>a. Position_apply_buy p Q P = Inr a \<and> pos_side a = LONG \<and> signed_qty a = Q \<and>
           avg_px_open a = P \<and> realized_pnl a = 0 \<and> pos_events a = pos_events p"
    unfolding Position_apply_buy_def Position_update_side_and_qty_eq Let_def t a
    using assms by (simp add: dec_add_def)
  show "\<exists>a. Position_apply_sell p Q P = Inr a \<and> pos_side a = SHORT \<and> signed_qty a = - Q \<and>
           avg_px_open a = P \<and> realized_pnl a = 0 \<and> pos_events a = pos_events p"
    unfolding Position_apply_sell_def Position_update_side_and_qty_eq Let_def t a
    using assms m by (simp add: dec_sub_def)
qed

lemma close_long:
  assumes "pos_side p = LONG" "signed_qty p = Q" "0 < Q" "ctx Q = Q" "avg_px_open p = P"
    "realized_pnl p = 0"
  shows "\<exists>b. Position_apply_sell p Q P = Inr b \<and> pos_side b = FLAT \<and> realized_pnl b = 0 \<and>
           pos_events b = pos_events p"
  unfolding Position_apply_sell_def Position_update_side_and_qty_eq Let_def
  using assms by (simp add: dec_add_def dec_sub_def dec_mul_def ctx_0)

lemma close_short:
  assumes "pos_side p = SHORT" "signed_qty p = - Q" "0 < Q" "ctx Q = Q" "avg_px_open p = P"
    "realized_pnl p = 0"
  shows "\<exists>b. Position_apply_buy p Q P = Inr b \<and> pos_side b = FLAT \<and> realized_pnl b = 0 \<and>
           pos_events b = pos_events p"
  unfolding Position_apply_buy_def Position_update_side_and_qty_eq Let_def
  using assms by (simp add: dec_add_def dec_sub_def dec_mul_def ctx_0)


lemma Position_track_commission_simps [simp]:
  "pos_side (Position_track_commission p f) = pos_side p"
  "signed_qty (Position_track_commission p f) = signed_qty p"
  "avg_px_open (Position_track_commission p f) = avg_px_open p"
  "realized_pnl (Position_track_commission p f) = realized_pnl p"
  "pos_events (Position_track_commission p f) = pos_events p"
  by (simp_all add: Position_track_commission_def split: option.split)

lemma Position_apply_eq:
  "Position_apply p fill =
     (case (if f_order_side fill = BUY
            then Position_apply_buy (Position_track_commission p fill) (qty_value (f_last_qty fill))
                   (px_value (f_last_px fill))
            else Position_apply_sell (Position_track_commission p fill) (qty_value (f_last_qty fill))
                   (px_value (f_last_px fill))) of
        Inl e \<Rightarrow> Inl e
      | Inr p2 \<Rightarrow> Inr (p2\<lparr>pos_events := pos_events p2 @ [fill]\<rparr>))"
  by (simp add: Position_apply_def Position_track_commission_def Let_def)

text \<open>
  C6 (as stated, refuted): products are rounded to 28 significant digits, so the average
  entry price \<open>(P \<cdot> Q) / Q\<close> need not be \<open>P\<close>. Buying 3333333333333333 at
  3000000000000.01 and selling the same quantity at the same price realizes
  3.333333333333333, not zero.
\<close>

theorem C6_round_trip_rounded:
  "map_sum id realized_pnl
     (open_then_apply AAPL ''P-1''
        (example_fill BUY (Q0 3333333333333333) (P2 (300000000000001 / 100)))
        (example_fill SELL (Q0 3333333333333333) (P2 (300000000000001 / 100))))
   = Inr (3333333333333333 / 1000000000000000)"
  by code_simp

text \<open>
  C6 (amended): for every quantity \<open>Q > 0\<close> and price \<open>P\<close> whose product \<open>P \<cdot> Q\<close> is
  exact in the decimal context (at most 28 significant digits; \<open>P\<close> and \<open>Q\<close> themselves
  are, as every Price and Quantity is), opening a fresh position with a fill of \<open>Q\<close> at
  \<open>P\<close> and applying a fill of \<open>Q\<close> at \<open>P\<close> on the opposite side gives realized P&L
  zero, side FLAT and a closed position, in both orders of the sides.
\<close>

theorem C6_round_trip_exact:
  assumes q1: "qty_value (f_last_qty f1) = Q" and q2: "qty_value (f_last_qty f2) = Q"
    and p1: "px_value (f_last_px f1) = P" and p2: "px_value (f_last_px f2) = P"
    and pos: "0 < Q" and opp: "f_order_side f1 \<noteq> f_order_side f2"
    and fq: "ctx Q = Q" and fp: "ctx P = P" and fpq: "ctx (P * Q) = P * Q"
  shows "\<exists>b. open_then_apply iid pid f1 f2 = Inr b \<and>
           realized_pnl b = 0 \<and> pos_side b = FLAT \<and> pos_is_closed b"
proof -
  define p0 where "p0 = Position_track_commission
            \<lparr>pos_instrument_id = iid,
             pos_id = pid,
             pos_strategy_id = f_strategy_id f1,
             pos_currency = f_currency f1,
             pos_side = FLAT,
             pos_quantity = \<lparr>qty_value = 0, qty_precision = qty_precision (f_last_qty f1)\<rparr>,
             signed_qty = 0,
             avg_px_open = 0,
             avg_px_close = 0,
             realized_pnl = 0,
             commissions = [],
             pos_events = [],
             pos_qty_precision = qty_precision (f_last_qty f1),
             pos_px_precision = px_precision (f_last_px f1)\<rparr> f1"
  have p0: "pos_side p0 = FLAT" "signed_qty p0 = 0" "realized_pnl p0 = 0"
    by (simp_all add: p0_def)
  have init: "Position_init iid pid f1 =
     (case (if f_order_side f1 = BUY then Position_apply_buy p0 Q P
            else Position_apply_sell p0 Q P) of
        Inl e \<Rightarrow> Inl e
      | Inr p2 \<Rightarrow> Inr (p2\<lparr>pos_events := pos_events p2 @ [f1]\<rparr>))"
    by (simp add: Position_init_def Quantity_init_0 Position_apply_eq p0_def q1 p1)
  show ?thesis
  proof (cases "f_order_side f1")
    case BUY
    with opp have s2: "f_order_side f2 = SELL" by (cases "f_order_side f2") auto
    from open_flat(1) [OF p0(1) p0(2) pos fq fp fpq p0(3)]
    obtain a where a: "Position_apply_buy p0 Q P = Inr a" "pos_side a = LONG"
      "signed_qty a = Q" "avg_px_open a = P" "realized_pnl a = 0" by blast
    let ?a = "a\<lparr>pos_events := pos_events a @ [f1]\<rparr>"
    have ia: "Position_init iid pid f1 = Inr ?a" by (simp add: init BUY a(1))
    have "\<exists>b. Position_apply_sell (Position_track_commission ?a f2) Q P = Inr b \<and> pos_side b = FLAT \<and>
            realized_pnl b = 0 \<and> pos_events b = pos_events (Position_track_commission ?a f2)"
      by (rule close_long) (simp_all add: a pos fq)
    then obtain b where b: "Position_apply_sell (Position_track_commission ?a f2) Q P = Inr b"
      "pos_side b = FLAT" "realized_pnl b = 0" by blast
    have "Position_apply ?a f2 = Inr (b\<lparr>pos_events := pos_events b @ [f2]\<rparr>)"
      by (simp add: Position_apply_eq s2 q2 p2 b(1))
    with ia b show ?thesis by (simp add: pos_is_closed_def open_then_apply_def)
  next
    case SELL
    with opp have s2: "f_order_side f2 = BUY" by (cases "f_order_side f2") auto
    from open_flat(2) [OF p0(1) p0(2) pos fq fp fpq p0(3)]
    obtain a where a: "Position_apply_sell p0 Q P = Inr a" "pos_side a = SHORT"
      "signed_qty a = - Q" "avg_px_open a = P" "realized_pnl a = 0" by blast
    let ?a = "a\<lparr>pos_events := pos_events a @ [f1]\<rparr>"
    have ia: "Position_init iid pid f1 = Inr ?a" by (simp add: init SELL a(1))
    have "\<exists>b. Position_apply_buy (Position_track_commission ?a f2) Q P = Inr b \<and> pos_side b = FLAT \<and>
            realized_pnl b = 0 \<and> pos_events b = pos_events (Position_track_commission ?a f2)"
      by (rule close_short) (simp_all add: a pos fq)
    then obtain b where b: "Position_apply_buy (Position_track_commission ?a f2) Q P = Inr b"
      "pos_side b = FLAT" "realized_pnl b = 0" by blast
    have "Position_apply ?a f2 = Inr (b\<lparr>pos_events := pos_events b @ [f2]\<rparr>)"
      by (simp add: Position_apply_eq s2 q2 p2 b(1))
    with ia b show ?thesis by (simp add: pos_is_closed_def open_then_apply_def)
  qed
qed


theorem C6_round_trip_exact_witness:
  "(\<exists>b. open_then_apply AAPL ''P-1'' (example_fill BUY (Q0 100) (P2 150))
          (example_fill SELL (Q0 100) (P2 150)) = Inr b \<and>
        realized_pnl b = 0 \<and> pos_side b = FLAT \<and> pos_is_closed b) \<and>
   (\<exists>b. open_then_apply AAPL ''P-1'' (example_fill SELL (Q0 100) (P2 150))
          (example_fill BUY (Q0 100) (P2 150)) = Inr b \<and>
        realized_pnl b = 0 \<and> pos_side b = FLAT \<and> pos_is_closed b)"
proof -
  have e: "ctx 100 = 100" "ctx 150 = 150" "ctx (150 * 100) = 150 * 100"
    by code_simp+
  have f: "qty_value (f_last_qty (example_fill s (Q0 100) (P2 150))) = 100"
    "px_value (f_last_px (example_fill s (Q0 100) (P2 150))) = 150"
    "f_order_side (example_fill s (Q0 100) (P2 150)) = s" for s
    by (simp_all add: example_fill_def Q0_def P2_def)
  have pos: "(0::rat) < 100" by simp
  have d: "BUY \<noteq> SELL" "SELL \<noteq> BUY" by simp_all
  show ?thesis
    using C6_round_trip_exact [of "example_fill BUY (Q0 100) (P2 150)" 100
          "example_fill SELL (Q0 100) (P2 150)" 150 AAPL "''P-1''"]
        C6_round_trip_exact [of "example_fill SELL (Q0 100) (P2 150)" 100
          "example_fill BUY (Q0 100) (P2 150)" 150 AAPL "''P-1''"]
    by (simp only: f e pos d not_False_eq_True simp_thms)
qed

section \<open>Properties of orders\<close>

lemma Quantity_init_exact:
  "at_precision x p \<Longrightarrow>
   Quantity_init x p = (if x < 0 then Inl ValueError else Inr \<lparr>qty_value = x, qty_precision = p\<rparr>)"
  by (simp add: Quantity_init_def at_precision_def)

lemma Order_set_avg_px_simps [simp]:
  "quantity (Order_set_avg_px ord a b c) = quantity ord"
  "filled_qty (Order_set_avg_px ord a b c) = filled_qty ord"
  "leaves_qty (Order_set_avg_px ord a b c) = leaves_qty ord"
  "status (Order_set_avg_px ord a b c) = status ord"
  by (simp_all add: Order_set_avg_px_def)

lemma apply_filled_invariant:
  assumes nr: "no_rounding ord (OrderFilled f)"
    and ok: "Order_apply_filled ord f = (None, o')"
  shows "qty_invariant o'"
proof -
  define nf where "nf = qty_value (filled_qty ord) + qty_value (f_last_qty f)"
  define lv where "lv = qty_value (quantity ord) - nf"
  from nr have e: "exact nf" "at_precision nf (qty_precision (quantity ord))"
    "exact lv" "at_precision lv (qty_precision (quantity ord))"
    by (simp_all add: no_rounding_def Let_def nf_def lv_def)
  have a: "dec_add (qty_value (filled_qty ord)) (qty_value (f_last_qty f)) = nf"
    using e(1) by (simp add: dec_add_def exact_def nf_def)
  have s: "dec_sub (qty_value (quantity ord)) nf = lv"
    using e(3) by (simp add: dec_sub_def exact_def lv_def)
  have fq: "Quantity_init nf (qty_precision (quantity ord)) =
      (if nf < 0 then Inl ValueError
       else Inr \<lparr>qty_value = nf, qty_precision = qty_precision (quantity ord)\<rparr>)"
    by (rule Quantity_init_exact) (rule e)
  have lq: "Quantity_init lv (qty_precision (quantity ord)) =
      (if lv < 0 then Inl ValueError
       else Inr \<lparr>qty_value = lv, qty_precision = qty_precision (quantity ord)\<rparr>)"
    by (rule Quantity_init_exact) (rule e)
  from ok have "qty_value (filled_qty o') = nf \<and> qty_value (leaves_qty o') = lv \<and>
      quantity o' = quantity ord"
    unfolding Order_apply_filled_def Let_def a
    by (cases "nf < 0"; cases "lv < 0")
       (auto simp add: fq s lq split: option.splits)
  then show ?thesis
    by (simp add: qty_invariant_def lv_def)
qed


lemma apply_updated_invariant:
  assumes inv: "qty_invariant ord"
    and nr: "no_rounding ord (OrderUpdated c qo po tpo t)"
    and ok: "Order_apply_updated ord qo po tpo = (None, o')"
  shows "qty_invariant o'"
proof -
  obtain e1 o1 where b: "Order_apply_updated_base ord qo = (e1, o1)" by (cases "Order_apply_updated_base ord qo")
  with ok have e1: "e1 = None" by (cases e1) (simp_all add: Order_apply_updated_def)
  from ok b e1 have q': "quantity o' = quantity o1" "filled_qty o' = filled_qty o1"
    "leaves_qty o' = leaves_qty o1"
    by (auto simp: Order_apply_updated_def Let_def)
  have "qty_invariant o1"
  proof (cases qo)
    case None
    with b e1 inv show ?thesis
      by (auto simp: Order_apply_updated_base_def Let_def qty_invariant_def split: option.splits)
  next
    case (Some q)
    define lv where "lv = qty_value q - qty_value (filled_qty ord)"
    from nr Some have e: "exact lv" "at_precision lv (qty_precision q)"
      by (simp_all add: no_rounding_def Let_def lv_def)
    have s: "dec_sub (qty_value q) (qty_value (filled_qty ord)) = lv"
      using e(1) by (simp add: dec_sub_def exact_def lv_def)
    have lq: "Quantity_init lv (qty_precision q) =
      (if lv < 0 then Inl ValueError else Inr \<lparr>qty_value = lv, qty_precision = qty_precision q\<rparr>)"
      by (rule Quantity_init_exact) (rule e)
    from b e1 Some have "qty_value (leaves_qty o1) = lv \<and> quantity o1 = q \<and>
        filled_qty o1 = filled_qty ord"
      unfolding Order_apply_updated_base_def Let_def
      by (cases "lv < 0") (auto simp: s lq split: option.splits)
    then show ?thesis by (simp add: qty_invariant_def lv_def)
  qed
  with q' show ?thesis by (simp add: qty_invariant_def)
qed

lemma apply_status_invariant:
  assumes inv: "qty_invariant ord" and ok: "Order_apply_status ord event = (None, o')"
  shows "qty_invariant o'"
  using assms
  by (auto simp: Order_apply_status_def Let_def qty_invariant_def
      split: option.splits OrderEvent.splits)

lemma Order_apply_invariant:
  assumes inv: "qty_invariant ord" and nr: "no_rounding ord event"
    and ok: "Order_apply ord event = (None, o')"
  shows "qty_invariant o'"
proof -
  define r where "r = (case event of
                 OrderFilled f \<Rightarrow> Order_apply_filled ord f
               | OrderUpdated c qo po tpo t \<Rightarrow> Order_apply_updated ord qo po tpo
               | _ \<Rightarrow> Order_apply_status ord event)"
  from ok have r: "fst r = None" and o': "o' = (snd r)\<lparr>events := events (snd r) @ [event],
                                    ts_last := ev_ts_event event\<rparr>"
    by (auto simp: Order_apply_def r_def [symmetric] Let_def split: option.splits)
  have "qty_invariant (snd r)"
  proof (cases event)
    case (OrderFilled f)
    with r have "Order_apply_filled ord f = (None, snd r)" by (simp add: r_def prod_eq_iff)
    with nr OrderFilled show ?thesis by (auto intro: apply_filled_invariant)
  next
    case (OrderUpdated c qo po tpo t)
    with r have "Order_apply_updated ord qo po tpo = (None, snd r)" by (simp add: r_def prod_eq_iff)
    with nr inv OrderUpdated show ?thesis by (auto intro: apply_updated_invariant)
  qed (use r inv in \<open>auto simp: r_def prod_eq_iff intro: apply_status_invariant\<close>)
  with o' show ?thesis by (simp add: qty_invariant_def)
qed

text \<open>
  C2 (the code departs from the claim): \<^verbatim>\<open>_apply_filled\<close> assigns \<^verbatim>\<open>avg_px\<close>,
  \<^verbatim>\<open>filled_qty\<close> and \<^verbatim>\<open>leaves_qty\<close> before it checks the transition. A fill of
  100 at 160 applied to a FILLED order (quantity 100, filled 100 at 150) raises the
  ValueError of a negative Quantity, not the error of an illegal transition, and leaves
  \<^verbatim>\<open>avg_px\<close> at 155 and \<^verbatim>\<open>filled_qty\<close> at 200. A fill of 50 at 10 applied to a
  CANCELED order raises the illegal-transition error and leaves \<^verbatim>\<open>filled_qty\<close> at 50,
  \<^verbatim>\<open>leaves_qty\<close> at 50 and \<^verbatim>\<open>avg_px\<close> at 10.
\<close>

theorem C2_fill_on_terminal_order_mutates:
  "Order_apply (example_order FILLED (Q0 100) (Q0 100) (Q0 0) 150 [])
     (OrderFilled (example_fill BUY (Q0 100) (P2 160)))
   = (Some ValueError, example_order FILLED (Q0 100) (Q0 200) (Q0 0) 155 []) \<and>
   Order_apply (example_order CANCELED (Q0 100) (Q0 0) (Q0 100) 0 [])
     (OrderFilled (example_fill BUY (Q0 50) (P2 10)))
   = (Some RuntimeError, example_order CANCELED (Q0 100) (Q0 50) (Q0 50) 10 [])"
  by code_simp

text \<open>
  C3 (as stated, refuted): a fill whose quantity is finer than the order's precision is
  rounded twice. An ACCEPTED order of quantity 1 (precision 0) takes a fill of 0.5
  (precision 1): \<^verbatim>\<open>filled_qty\<close> becomes 1 and \<^verbatim>\<open>leaves_qty\<close> becomes 1.
\<close>

theorem C3_fill_finer_than_order_precision:
  "qty_invariant (example_order ACCEPTED (Q0 1) (Q0 0) (Q0 1) 0 []) \<and>
   Order_apply (example_order ACCEPTED (Q0 1) (Q0 0) (Q0 1) 0 [])
     (OrderFilled (example_fill BUY (Q1 (1 / 2)) (P2 10)))
   = (None, example_order PARTIALLY_FILLED (Q0 1) (Q0 1) (Q0 1) 10
              [OrderFilled (example_fill BUY (Q1 (1 / 2)) (P2 10))]) \<and>
   \<not> qty_invariant (example_order PARTIALLY_FILLED (Q0 1) (Q0 1) (Q0 1) 10
              [OrderFilled (example_fill BUY (Q1 (1 / 2)) (P2 10))])"
  by code_simp

text \<open>
  C3 (amended): for every order on which the invariant holds and every sequence of events
  applied through \<^verbatim>\<open>Order.apply\<close>, the invariant
  \<^verbatim>\<open>filled_qty + leaves_qty = quantity\<close> holds after each application that returns,
  provided no quantity is rounded on the way: the filled and the remaining quantity that a
  fill produces, and the remaining quantity that an update produces, are at the precision
  of the order's quantity and have at most 28 significant digits.
\<close>

theorem C3_invariant:
  "qty_invariant ord \<Longrightarrow> no_rounding_all ord evs \<Longrightarrow>
   \<forall>o' \<in> set (Order_apply_trace ord evs). qty_invariant o'"
proof (induction evs arbitrary: ord)
  case Nil
  then show ?case by simp
next
  case (Cons e es)
  obtain r o1 where a: "Order_apply ord e = (r, o1)" by (cases "Order_apply ord e")
  show ?case
  proof (cases r)
    case None
    with a Cons.prems have i1: "qty_invariant o1" and n1: "no_rounding_all o1 es"
      by (auto intro: Order_apply_invariant)
    from Cons.IH [OF i1 n1] a None i1 show ?thesis by simp
  next
    case (Some err)
    with a show ?thesis by simp
  qed
qed



theorem C3_invariant_witness:
  "qty_invariant (example_order ACCEPTED (Q0 100) (Q0 0) (Q0 100) 0 []) \<and>
   no_rounding_all (example_order ACCEPTED (Q0 100) (Q0 0) (Q0 100) 0 [])
     [OrderFilled (example_fill BUY (Q0 60) (P2 150)),
      OrderFilled (example_fill BUY (Q0 40) (P2 151))] \<and>
   list_all qty_invariant
     (Order_apply_trace (example_order ACCEPTED (Q0 100) (Q0 0) (Q0 100) 0 [])
        [OrderFilled (example_fill BUY (Q0 60) (P2 150)),
         OrderFilled (example_fill BUY (Q0 40) (P2 151))]) \<and>
   length (Order_apply_trace (example_order ACCEPTED (Q0 100) (Q0 0) (Q0 100) 0 [])
        [OrderFilled (example_fill BUY (Q0 60) (P2 150)),
         OrderFilled (example_fill BUY (Q0 40) (P2 151))]) = 2"
proof -
  let ?e1 = "OrderFilled (example_fill BUY (Q0 60) (P2 150))"
  let ?e2 = "OrderFilled (example_fill BUY (Q0 40) (P2 151))"
  let ?o = "example_order ACCEPTED (Q0 100) (Q0 0) (Q0 100) 0 []"
  let ?o1 = "example_order PARTIALLY_FILLED (Q0 100) (Q0 60) (Q0 40) 150 [?e1]"
  let ?o2 = "example_order FILLED (Q0 100) (Q0 100) (Q0 0) (752 / 5) [?e1, ?e2]"
  have s1: "Order_apply ?o ?e1 = (None, ?o1)" by code_simp
  have s2: "Order_apply ?o1 ?e2 = (None, ?o2)" by code_simp
  have i: "qty_invariant ?o" by code_simp
  have n1: "no_rounding ?o ?e1" by code_simp
  have n2: "no_rounding ?o1 ?e2" by code_simp
  have n: "no_rounding_all ?o [?e1, ?e2]" by (simp add: s1 s2 n1 n2)
  have l: "Order_apply_trace ?o [?e1, ?e2] = [?o1, ?o2]" by (simp add: s1 s2)
  have "\<forall>o' \<in> set [?o1, ?o2]. qty_invariant o'"
    using C3_invariant [OF i n] unfolding l .
  then have "list_all qty_invariant [?o1, ?o2]" by simp
  then have "list_all qty_invariant (Order_apply_trace ?o [?e1, ?e2])" unfolding l .
  with i n l show ?thesis by simp
qed

lemma fill_notional_append:
  "fill_notional (es @ [e]) =
     fill_notional es + (case e of OrderFilled f \<Rightarrow> px_value (f_last_px f) * qty_value (f_last_qty f)
                         | _ \<Rightarrow> 0)"
  by (induction es rule: fill_notional.induct) (auto split: OrderEvent.splits)

lemma fill_quantity_append:
  "fill_quantity (es @ [e]) =
     fill_quantity es + (case e of OrderFilled f \<Rightarrow> qty_value (f_last_qty f) | _ \<Rightarrow> 0)"
  by (induction es rule: fill_quantity.induct) (auto split: OrderEvent.splits)

lemma apply_filled_avg:
  assumes inv: "avg_px_invariant ord"
    and nr: "no_avg_rounding ord (OrderFilled f)"
    and ok: "Order_apply_filled ord f = (None, o')"
  shows "0 \<le> qty_value (filled_qty o') \<and>
         qty_value (filled_qty o') = qty_value (filled_qty ord) + qty_value (f_last_qty f) \<and>
         avg_px o' * qty_value (filled_qty o') =
           avg_px ord * qty_value (filled_qty ord) + px_value (f_last_px f) * qty_value (f_last_qty f) \<and>
         events o' = events ord"
proof -
  define nf where "nf = qty_value (filled_qty ord) + qty_value (f_last_qty f)"
  define tot where "tot = avg_px ord * qty_value (filled_qty ord) +
      px_value (f_last_px f) * qty_value (f_last_qty f)"
  from nr have e: "0 \<le> qty_value (f_last_qty f)" "exact nf"
    "at_precision nf (qty_precision (quantity ord))"
    "exact (avg_px ord * qty_value (filled_qty ord))"
    "exact (px_value (f_last_px f) * qty_value (f_last_qty f))" "exact tot" "exact (tot / nf)"
    by (simp_all add: no_avg_rounding_def Let_def nf_def tot_def)
  have a: "dec_add (qty_value (filled_qty ord)) (qty_value (f_last_qty f)) = nf"
    using e(2) by (simp add: dec_add_def exact_def nf_def)
  have d: "dec_div (dec_add (dec_mul (avg_px ord) (qty_value (filled_qty ord)))
             (dec_mul (px_value (f_last_px f)) (qty_value (f_last_qty f)))) nf = tot / nf"
    using e(4,5,6,7) by (simp add: dec_add_def dec_mul_def dec_div_def exact_def tot_def)
  have fq: "Quantity_init nf (qty_precision (quantity ord)) =
      (if nf < 0 then Inl ValueError
       else Inr \<lparr>qty_value = nf, qty_precision = qty_precision (quantity ord)\<rparr>)"
    by (rule Quantity_init_exact) (rule e)
  from inv e(1) have nn: "0 \<le> nf" by (simp add: avg_px_invariant_def nf_def)
  have av: "avg_px (Order_set_avg_px ord (px_value (f_last_px f)) (qty_value (f_last_qty f)) nf) * nf
      = tot"
  proof (cases "0 < nf")
    case True
    then show ?thesis by (simp add: Order_set_avg_px_def d)
  next
    case False
    with nn have z: "nf = 0" by simp
    with inv e(1) have "qty_value (filled_qty ord) = 0" "qty_value (f_last_qty f) = 0"
      by (simp_all add: avg_px_invariant_def nf_def add_nonneg_eq_0_iff)
    with z show ?thesis by (simp add: tot_def)
  qed
  have ev: "events (Order_set_avg_px ord x y z) = events ord" for x y z
    by (simp add: Order_set_avg_px_def)
  from ok nn have "qty_value (filled_qty o') = nf \<and>
      avg_px o' = avg_px (Order_set_avg_px ord (px_value (f_last_px f)) (qty_value (f_last_qty f)) nf) \<and>
      events o' = events ord"
    unfolding Order_apply_filled_def Let_def a
    by (auto simp add: fq ev split: option.splits sum.splits)
  with av nn show ?thesis by (simp add: nf_def tot_def)
qed

lemma apply_updated_avg:
  assumes ok: "Order_apply_updated ord qo po tpo = (None, o')"
  shows "filled_qty o' = filled_qty ord \<and> avg_px o' = avg_px ord \<and> events o' = events ord"
  using ok
  by (auto simp: Order_apply_updated_def Order_apply_updated_base_def Let_def
      split: option.splits sum.splits prod.splits if_splits)

lemma apply_status_avg:
  assumes ok: "Order_apply_status ord event = (None, o')"
  shows "filled_qty o' = filled_qty ord \<and> avg_px o' = avg_px ord \<and> events o' = events ord"
  using ok
  by (auto simp: Order_apply_status_def Let_def split: option.splits OrderEvent.splits)

lemma Order_apply_avg:
  assumes inv: "avg_px_invariant ord" and nr: "no_avg_rounding ord event"
    and ok: "Order_apply ord event = (None, o')"
  shows "avg_px_invariant o'"
proof -
  define r where "r = (case event of
                 OrderFilled f \<Rightarrow> Order_apply_filled ord f
               | OrderUpdated c qo po tpo t \<Rightarrow> Order_apply_updated ord qo po tpo
               | _ \<Rightarrow> Order_apply_status ord event)"
  from ok have r: "fst r = None" and o': "o' = (snd r)\<lparr>events := events (snd r) @ [event],
                                    ts_last := ev_ts_event event\<rparr>"
    by (auto simp: Order_apply_def r_def [symmetric] Let_def split: option.splits)
  show ?thesis
  proof (cases event)
    case (OrderFilled f)
    with r have "Order_apply_filled ord f = (None, snd r)" by (simp add: r_def prod_eq_iff)
    from apply_filled_avg [OF inv nr [unfolded OrderFilled] this]
    have s: "0 \<le> qty_value (filled_qty (snd r))"
      "qty_value (filled_qty (snd r)) = qty_value (filled_qty ord) + qty_value (f_last_qty f)"
      "avg_px (snd r) * qty_value (filled_qty (snd r)) =
         avg_px ord * qty_value (filled_qty ord) +
         px_value (f_last_px f) * qty_value (f_last_qty f)"
      "events (snd r) = events ord" by blast+
    from inv have i: "fill_quantity (events ord) = qty_value (filled_qty ord)"
      "fill_notional (events ord) = avg_px ord * qty_value (filled_qty ord)"
      unfolding avg_px_invariant_def by blast+
    have "fill_notional (events o') = avg_px o' * qty_value (filled_qty o')"
      unfolding o' OrderFilled using s(3) i(2) s(4)
      by (simp add: fill_notional_append)
    moreover have "fill_quantity (events o') = qty_value (filled_qty o')"
      unfolding o' OrderFilled using s(2) i(1) s(4)
      by (simp add: fill_quantity_append)
    moreover have "0 \<le> qty_value (filled_qty o')" unfolding o' using s(1) by simp
    ultimately show ?thesis by (simp add: avg_px_invariant_def)
  next
    case (OrderUpdated c qo po tpo t)
    with r have "Order_apply_updated ord qo po tpo = (None, snd r)" by (simp add: r_def prod_eq_iff)
    from apply_updated_avg [OF this] inv o' OrderUpdated show ?thesis
      by (simp add: avg_px_invariant_def fill_notional_append fill_quantity_append)
  next
    case (OrderInitialized i)
    with r have "Order_apply_status ord event = (None, snd r)" by (simp add: r_def prod_eq_iff)
    from apply_status_avg [OF this] inv o' OrderInitialized show ?thesis
      by (simp add: avg_px_invariant_def fill_notional_append fill_quantity_append)
  next
    case (OrderDenied c re t)
    with r have "Order_apply_status ord event = (None, snd r)" by (simp add: r_def prod_eq_iff)
    from apply_status_avg [OF this] inv o' OrderDenied show ?thesis
      by (simp add: avg_px_invariant_def fill_notional_append fill_quantity_append)
  next
    case (OrderSubmitted c t)
    with r have "Order_apply_status ord event = (None, snd r)" by (simp add: r_def prod_eq_iff)
    from apply_status_avg [OF this] inv o' OrderSubmitted show ?thesis
      by (simp add: avg_px_invariant_def fill_notional_append fill_quantity_append)
  next
    case (OrderAccepted c v t)
    with r have "Order_apply_status ord event = (None, snd r)" by (simp add: r_def prod_eq_iff)
    from apply_status_avg [OF this] inv o' OrderAccepted show ?thesis
      by (simp add: avg_px_invariant_def fill_notional_append fill_quantity_append)
  next
    case (OrderRejected c re t)
    with r have "Order_apply_status ord event = (None, snd r)" by (simp add: r_def prod_eq_iff)
    from apply_status_avg [OF this] inv o' OrderRejected show ?thesis
      by (simp add: avg_px_invariant_def fill_notional_append fill_quantity_append)
  next
    case (OrderCanceled c t)
    with r have "Order_apply_status ord event = (None, snd r)" by (simp add: r_def prod_eq_iff)
    from apply_status_avg [OF this] inv o' OrderCanceled show ?thesis
      by (simp add: avg_px_invariant_def fill_notional_append fill_quantity_append)
  next
    case (OrderExpired c t)
    with r have "Order_apply_status ord event = (None, snd r)" by (simp add: r_def prod_eq_iff)
    from apply_status_avg [OF this] inv o' OrderExpired show ?thesis
      by (simp add: avg_px_invariant_def fill_notional_append fill_quantity_append)
  qed
qed

text \<open>
  C5 (as stated, refuted): the quotient of the weighted average is rounded to 28
  significant digits. Fills of 1 at 1 and of 2 at 2 leave \<^verbatim>\<open>avg_px\<close> at
  1.666666666666666666666666667, which is not 5/3.
\<close>

theorem C5_avg_px_rounded:
  "map avg_px
     (Order_apply_trace (example_order ACCEPTED (Q0 3) (Q0 0) (Q0 3) 0 [])
        [OrderFilled (example_fill BUY (Q0 1) (P2 1)),
         OrderFilled (example_fill BUY (Q0 2) (P2 2))])
   = [1, 1666666666666666666666666667 / 1000000000000000000000000000] \<and>
   (1 * 1 + 2 * 2) / (1 + 2) \<noteq> (1666666666666666666666666667 / 1000000000000000000000000000 :: rat)"
proof -
  let ?e1 = "OrderFilled (example_fill BUY (Q0 1) (P2 1))"
  let ?e2 = "OrderFilled (example_fill BUY (Q0 2) (P2 2))"
  let ?o = "example_order ACCEPTED (Q0 3) (Q0 0) (Q0 3) 0 []"
  let ?o1 = "example_order PARTIALLY_FILLED (Q0 3) (Q0 1) (Q0 2) 1 [?e1]"
  let ?o2 = "example_order FILLED (Q0 3) (Q0 3) (Q0 0)
               (1666666666666666666666666667 / 1000000000000000000000000000) [?e1, ?e2]"
  have s1: "Order_apply ?o ?e1 = (None, ?o1)" by code_simp
  have s2: "Order_apply ?o1 ?e2 = (None, ?o2)" by code_simp
  have l: "Order_apply_trace ?o [?e1, ?e2] = [?o1, ?o2]" by (simp add: s1 s2)
  show ?thesis unfolding l by (simp add: example_order_def)
qed

text \<open>
  C5 (amended): for every order whose \<^verbatim>\<open>avg_px\<close> agrees with the fills applied so far
  (as on a new order) and every sequence of events applied through \<^verbatim>\<open>Order.apply\<close>,
  after each application that returns \<^verbatim>\<open>avg_px\<close> is the quantity-weighted mean
  \<open>(\<Sum> last_px \<cdot> last_qty) / (\<Sum> last_qty)\<close> of the fills applied, once their quantity is
  positive, provided no intermediate result of the weighted-average assignment is rounded:
  the products, their sum and the quotient have at most 28 significant digits, and the
  filled quantity is at the precision of the order's quantity. Otherwise \<^verbatim>\<open>avg_px\<close>
  is that mean with each step rounded to 28 significant digits.
\<close>

theorem C5_avg_px:
  "avg_px_invariant ord \<Longrightarrow> no_avg_rounding_all ord evs \<Longrightarrow>
   \<forall>o' \<in> set (Order_apply_trace ord evs).
     0 < fill_quantity (events o') \<longrightarrow>
     avg_px o' = fill_notional (events o') / fill_quantity (events o')"
proof (induction evs arbitrary: ord)
  case Nil
  then show ?case by simp
next
  case (Cons e es)
  obtain r o1 where a: "Order_apply ord e = (r, o1)" by (cases "Order_apply ord e")
  show ?case
  proof (cases r)
    case None
    with a Cons.prems have i1: "avg_px_invariant o1" and n1: "no_avg_rounding_all o1 es"
      by (auto intro: Order_apply_avg)
    have "0 < fill_quantity (events o1) \<longrightarrow>
       avg_px o1 = fill_notional (events o1) / fill_quantity (events o1)"
      using i1 by (auto simp: avg_px_invariant_def field_simps)
    with Cons.IH [OF i1 n1] a None show ?thesis by simp
  next
    case (Some err)
    with a show ?thesis by simp
  qed
qed

theorem C5_avg_px_witness:
  "avg_px_invariant (example_order ACCEPTED (Q0 100) (Q0 0) (Q0 100) 0 []) \<and>
   no_avg_rounding_all (example_order ACCEPTED (Q0 100) (Q0 0) (Q0 100) 0 [])
     [OrderFilled (example_fill BUY (Q0 60) (P2 150)),
      OrderFilled (example_fill BUY (Q0 40) (P2 151))] \<and>
   list_all (\<lambda>ord. avg_px ord = fill_notional (events ord) / fill_quantity (events ord))
     (Order_apply_trace (example_order ACCEPTED (Q0 100) (Q0 0) (Q0 100) 0 [])
        [OrderFilled (example_fill BUY (Q0 60) (P2 150)),
         OrderFilled (example_fill BUY (Q0 40) (P2 151))]) \<and>
   map avg_px
     (Order_apply_trace (example_order ACCEPTED (Q0 100) (Q0 0) (Q0 100) 0 [])
        [OrderFilled (example_fill BUY (Q0 60) (P2 150)),
         OrderFilled (example_fill BUY (Q0 40) (P2 151))])
   = [150, (150 * 60 + 151 * 40) / (60 + 40)]"
proof -
  let ?e1 = "OrderFilled (example_fill BUY (Q0 60) (P2 150))"
  let ?e2 = "OrderFilled (example_fill BUY (Q0 40) (P2 151))"
  let ?o = "example_order ACCEPTED (Q0 100) (Q0 0) (Q0 100) 0 []"
  let ?o1 = "example_order PARTIALLY_FILLED (Q0 100) (Q0 60) (Q0 40) 150 [?e1]"
  let ?o2 = "example_order FILLED (Q0 100) (Q0 100) (Q0 0) (752 / 5) [?e1, ?e2]"
  have s1: "Order_apply ?o ?e1 = (None, ?o1)" by code_simp
  have s2: "Order_apply ?o1 ?e2 = (None, ?o2)" by code_simp
  have i: "avg_px_invariant ?o" by code_simp
  have n1: "no_avg_rounding ?o ?e1" by code_simp
  have n2: "no_avg_rounding ?o1 ?e2" by code_simp
  have n: "no_avg_rounding_all ?o [?e1, ?e2]" by (simp add: s1 s2 n1 n2)
  have l: "Order_apply_trace ?o [?e1, ?e2] = [?o1, ?o2]" by (simp add: s1 s2)
  have q: "0 < fill_quantity (events ?o1)" "0 < fill_quantity (events ?o2)"
    by (simp_all add: example_order_def example_fill_def Q0_def)
  have "\<forall>o' \<in> set [?o1, ?o2]. 0 < fill_quantity (events o') \<longrightarrow>
      avg_px o' = fill_notional (events o') / fill_quantity (events o')"
    using C5_avg_px [OF i n] unfolding l .
  with q have "list_all
      (\<lambda>ord. avg_px ord = fill_notional (events ord) / fill_quantity (events ord)) [?o1, ?o2]"
    by simp
  then have a: "list_all
      (\<lambda>ord. avg_px ord = fill_notional (events ord) / fill_quantity (events ord))
      (Order_apply_trace ?o [?e1, ?e2])"
    unfolding l .
  have m: "map avg_px (Order_apply_trace ?o [?e1, ?e2]) = [150, (150 * 60 + 151 * 40) / (60 + 40)]"
    unfolding l by (simp add: example_order_def)
  from i n a m show ?thesis by simp
qed

section \<open>Properties of the risk denial\<close>

lemma Order_apply_denied:
  "status ord = INITIALIZED \<Longrightarrow>
   Order_apply ord (OrderDenied c r t) =
     (None, ord\<lparr>status := DENIED, events := events ord @ [OrderDenied c r t], ts_last := t\<rparr>)"
  by (simp add: Order_apply_def Order_apply_status_def Order_check_transition_def)

lemma validate_order_precision:
  assumes "map_of (c_instruments (cache eng)) (iid_value (instrument_id ord)) = Some instrument"
    and "qty_precision (quantity ord) \<noteq> size_precision instrument"
  shows "RiskEngine_validate_order eng ord =
     Some (OrderDenied (client_order_id ord)
       (Text (if trading_state eng = HALTED then ''Trading is HALTED''
              else ''Invalid quantity precision '' @ str_nat (qty_precision (quantity ord)) @
                   '', expected '' @ str_nat (size_precision instrument))) 0)"
  using assms by (simp add: RiskEngine_validate_order_def quantity_reason_def)

lemma submit_order_denied:
  assumes v: "RiskEngine_validate_order eng ord = Some denied"
    and st: "status ord = INITIALIZED"
  shows "\<exists>r. denied = OrderDenied (client_order_id ord) r 0 \<and>
     ExecutionEngine_submit_order ord eng =
       Inr (publish (order_topic ord) (OrderMsg denied)
             (eng\<lparr>cache := Cache_update_order
                 (ord\<lparr>status := DENIED, events := events ord @ [denied], ts_last := 0\<rparr>)
                 (cache eng)\<rparr>))"
proof -
  from v obtain r where d: "denied = OrderDenied (client_order_id ord) r 0"
    by (auto simp: RiskEngine_validate_order_def)
  show ?thesis
    using v st unfolding d
    by (simp add: ExecutionEngine_submit_order_def Order_apply_denied order_topic_def)
qed

text \<open>
  C7 (as stated, refuted): the trading state is checked first. In the HALTED state an
  order whose quantity precision (1) differs from the instrument's size precision (0) is
  denied with the reason \<^verbatim>\<open>Trading is HALTED\<close>, which does not mention precision.
\<close>

theorem C7_halted_reason:
  "qty_precision (quantity (example_order INITIALIZED (Q1 10) (Q1 0) (Q1 10) 0 []))
     \<noteq> size_precision example_instrument \<and>
   map_sum id (map snd \<circ> published)
     (ExecutionEngine_submit_order (example_order INITIALIZED (Q1 10) (Q1 0) (Q1 10) 0 [])
        (example_engine HALTED [] []))
   = Inr [OrderMsg (OrderDenied ''O-001'' (Text ''Trading is HALTED'') 0)] \<and>
   \<not> sublist ''precision'' ''Trading is HALTED''"
  by code_simp

text \<open>
  C7 (amended): for every order in status INITIALIZED whose quantity precision differs
  from the size precision of its instrument in the cache, \<^verbatim>\<open>submit_order\<close> returns
  having published one OrderDenied; its reason is
  \<^verbatim>\<open>Invalid quantity precision p, expected q\<close>, which mentions precision, unless the
  trading state is HALTED, when it is \<^verbatim>\<open>Trading is HALTED\<close>. In both cases the cached
  order has status DENIED, no exchange is touched (the order is not routed: open orders,
  counters and account balances are as before), and no position is created.
\<close>

theorem C7_precision_denial:
  assumes st: "status ord = INITIALIZED"
    and ins: "map_of (c_instruments (cache eng)) (iid_value (instrument_id ord)) = Some instrument"
    and prec: "qty_precision (quantity ord) \<noteq> size_precision instrument"
  shows "\<exists>eng' reason.
     ExecutionEngine_submit_order ord eng = Inr eng' \<and>
     published eng' = published eng @
        [(order_topic ord, OrderMsg (OrderDenied (client_order_id ord) (Text reason) 0))] \<and>
     reason = (if trading_state eng = HALTED then ''Trading is HALTED''
               else ''Invalid quantity precision '' @ str_nat (qty_precision (quantity ord)) @
                    '', expected '' @ str_nat (size_precision instrument)) \<and>
     (trading_state eng \<noteq> HALTED \<longrightarrow> sublist ''precision'' reason) \<and>
     map_option status (Cache_order (cache eng') (client_order_id ord)) = Some DENIED \<and>
     exchanges eng' = exchanges eng \<and>
     c_positions (cache eng') = c_positions (cache eng) \<and>
     position_counter eng' = position_counter eng"
proof -
  let ?reason = "if trading_state eng = HALTED then ''Trading is HALTED''
               else ''Invalid quantity precision '' @ str_nat (qty_precision (quantity ord)) @
                    '', expected '' @ str_nat (size_precision instrument)"
  let ?denied = "OrderDenied (client_order_id ord) (Text ?reason) 0"
  have v: "RiskEngine_validate_order eng ord = Some ?denied"
    using validate_order_precision [OF ins prec] .
  from submit_order_denied [OF v st]
  have s: "ExecutionEngine_submit_order ord eng =
       Inr (publish (order_topic ord) (OrderMsg ?denied)
             (eng\<lparr>cache := Cache_update_order
                 (ord\<lparr>status := DENIED, events := events ord @ [?denied], ts_last := 0\<rparr>)
                 (cache eng)\<rparr>))" by simp
  have m: "sublist ''precision''
      (''Invalid quantity '' @ ''precision'' @
         ('' '' @ str_nat (qty_precision (quantity ord)) @ '', expected '' @
          str_nat (size_precision instrument)))"
    by (rule sublist_appendI)
  have "trading_state eng \<noteq> HALTED \<longrightarrow> sublist ''precision'' ?reason"
    using m by simp
  with s show ?thesis
    by (simp add: publish_def Cache_update_order_def Cache_order_def update_conv del: sublist_Cons_right)
qed


theorem C7_precision_denial_witness:
  "\<exists>eng'. ExecutionEngine_submit_order (example_order INITIALIZED (Q1 10) (Q1 0) (Q1 10) 0 [])
            (example_engine ACTIVE [] []) = Inr eng' \<and>
     published eng' =
       [(''events.order.S-001'',
         OrderMsg (OrderDenied ''O-001'' (Text ''Invalid quantity precision 1, expected 0'') 0))] \<and>
     sublist ''precision'' ''Invalid quantity precision 1, expected 0'' \<and>
     map_option status (Cache_order (cache eng') ''O-001'') = Some DENIED \<and>
     exchanges eng' = exchanges (example_engine ACTIVE [] []) \<and>
     c_positions (cache eng') = []"
proof -
  let ?ord = "example_order INITIALIZED (Q1 10) (Q1 0) (Q1 10) 0 []"
  let ?eng = "example_engine ACTIVE [] []"
  have st: "status ?ord = INITIALIZED" by (simp add: example_order_def)
  have ins: "map_of (c_instruments (cache ?eng)) (iid_value (instrument_id ?ord))
      = Some example_instrument"
    by (simp add: example_engine_def example_order_def AAPL_def iid_value_def)
  have prec: "qty_precision (quantity ?ord) \<noteq> size_precision example_instrument"
    by (simp add: example_order_def Q1_def example_instrument_def)
  have n: "str_nat 1 = ''1''" "str_nat 0 = ''0''" by code_simp+
  have f: "trading_state ?eng = ACTIVE" "published ?eng = []" "c_positions (cache ?eng) = []"
    "order_topic ?ord = ''events.order.S-001''" "client_order_id ?ord = ''O-001''"
    "qty_precision (quantity ?ord) = 1" "size_precision example_instrument = 0"
    by (simp_all add: example_engine_def example_order_def order_topic_def str_opt_def Q1_def
        example_instrument_def)
  have r: "(if trading_state ?eng = HALTED then ''Trading is HALTED''
            else ''Invalid quantity precision '' @ str_nat (qty_precision (quantity ?ord)) @
                 '', expected '' @ str_nat (size_precision example_instrument))
           = ''Invalid quantity precision 1, expected 0''"
    unfolding f n by simp
  from C7_precision_denial [OF st ins prec] obtain eng' reason where
    e: "ExecutionEngine_submit_order ?ord ?eng = Inr eng'"
      "published eng' = published ?eng @
         [(order_topic ?ord, OrderMsg (OrderDenied (client_order_id ?ord) (Text reason) 0))]"
      "reason = (if trading_state ?eng = HALTED then ''Trading is HALTED''
            else ''Invalid quantity precision '' @ str_nat (qty_precision (quantity ?ord)) @
                 '', expected '' @ str_nat (size_precision example_instrument))"
      "trading_state ?eng \<noteq> HALTED \<longrightarrow> sublist ''precision'' reason"
      "map_option status (Cache_order (cache eng') (client_order_id ?ord)) = Some DENIED"
      "exchanges eng' = exchanges ?eng"
      "c_positions (cache eng') = c_positions (cache ?eng)"
    by blast
  from e(3) r have reason: "reason = ''Invalid quantity precision 1, expected 0''" by simp
  from e(4) f(1) have "sublist ''precision'' reason" by simp
  then have s: "sublist ''precision'' ''Invalid quantity precision 1, expected 0''"
    unfolding reason .
  have p: "published eng' =
       [(''events.order.S-001'',
         OrderMsg (OrderDenied ''O-001'' (Text ''Invalid quantity precision 1, expected 0'') 0))]"
    using e(2) unfolding f reason by simp
  have c: "map_option status (Cache_order (cache eng') ''O-001'') = Some DENIED"
    using e(5) unfolding f .
  have q: "c_positions (cache eng') = []" using e(7) unfolding f .
  from e(1) p s c e(6) q show ?thesis by blast
qed

lemma by_ids_mem:
  "x \<in> set (by_ids d ids) \<longleftrightarrow> (\<exists>k \<in> set ids. map_of d k = Some x)"
  by (induction ids) (auto simp: by_ids_def map_filter_simps split: option.splits)

lemma by_ids_update_other:
  assumes fresh: "oid \<notin> set ids" and keyed: "list_all (\<lambda>(k, ord). client_order_id ord = k) d"
    and id: "client_order_id o1 = oid"
  shows "o1 \<notin> set (by_ids (AList.update oid o1 d) ids)"
proof
  assume "o1 \<in> set (by_ids (AList.update oid o1 d) ids)"
  then obtain k where k: "k \<in> set ids" "map_of (AList.update oid o1 d) k = Some o1"
    by (auto simp: by_ids_mem)
  with fresh have ne: "k \<noteq> oid" by auto
  with k have "map_of d k = Some o1" by (simp add: update_conv)
  then have "(k, o1) \<in> set d" by (rule map_of_SomeD)
  with keyed have "client_order_id o1 = k" by (auto simp: list_all_iff)
  with id ne show False by simp
qed

lemma unindexed_lookup:
  assumes "unindexed idx oid"
  shows "oid \<notin> set (case map_of idx k of None \<Rightarrow> [] | Some ids \<Rightarrow> ids)"
proof (cases "map_of idx k")
  case None
  then show ?thesis by simp
next
  case (Some ids)
  then have "(k, ids) \<in> set idx" by (rule map_of_SomeD)
  with assms have "oid \<notin> set ids" by (force simp: unindexed_def)
  with Some show ?thesis by simp
qed

text \<open>
  C9: after a risk denial of a new order (status INITIALIZED, client order id in no
  secondary index, cache keyed by id) \<^verbatim>\<open>submit_order\<close> leaves the denied order in the
  primary map of the cache: \<^verbatim>\<open>cache.order\<close> returns it with status DENIED and
  \<^verbatim>\<open>cache.orders()\<close> without a filter contains it (the report's
  \<^verbatim>\<open>total_orders\<close> is the length of that list), while no instrument-, strategy- or
  venue-indexed query returns it.
\<close>

theorem C9_denied_order_unindexed:
  assumes v: "RiskEngine_validate_order eng ord = Some denied"
    and st: "status ord = INITIALIZED"
    and fresh: "order_unindexed (cache eng) (client_order_id ord)"
    and keyed: "orders_keyed_by_id (cache eng)"
  shows "\<exists>eng' o1.
     ExecutionEngine_submit_order ord eng = Inr eng' \<and>
     Cache_order (cache eng') (client_order_id ord) = Some o1 \<and>
     status o1 = DENIED \<and>
     o1 \<in> set (Cache_orders (cache eng') None None) \<and>
     (\<forall>i s. o1 \<notin> set (Cache_orders (cache eng') (Some i) s)) \<and>
     (\<forall>s. o1 \<notin> set (Cache_orders (cache eng') None (Some s))) \<and>
     (\<forall>v. o1 \<notin> set (Cache_orders_for_venue (cache eng') v))"
proof -
  let ?o1 = "ord\<lparr>status := DENIED, events := events ord @ [denied], ts_last := 0\<rparr>"
  let ?eng' = "publish (order_topic ord) (OrderMsg denied)
             (eng\<lparr>cache := Cache_update_order ?o1 (cache eng)\<rparr>)"
  from submit_order_denied [OF v st]
  have s: "ExecutionEngine_submit_order ord eng = Inr ?eng'" by auto
  have c: "c_orders (cache ?eng') = AList.update (client_order_id ord) ?o1 (c_orders (cache eng))"
    "c_orders_by_instrument (cache ?eng') = c_orders_by_instrument (cache eng)"
    "c_orders_by_strategy (cache ?eng') = c_orders_by_strategy (cache eng)"
    "c_orders_by_venue (cache ?eng') = c_orders_by_venue (cache eng)"
    by (simp_all add: publish_def Cache_update_order_def)
  have l: "Cache_order (cache ?eng') (client_order_id ord) = Some ?o1"
    by (simp add: Cache_order_def c update_conv)
  then have "(client_order_id ord, ?o1) \<in> set (c_orders (cache ?eng'))"
    unfolding Cache_order_def by (rule map_of_SomeD)
  then have a: "?o1 \<in> set (Cache_orders (cache ?eng') None None)"
    by (force simp: Cache_orders_def)
  from keyed have k: "list_all (\<lambda>(k, ord). client_order_id ord = k) (c_orders (cache eng))"
    by (simp add: orders_keyed_by_id_def)
  have id: "client_order_id ?o1 = client_order_id ord" by simp
  from fresh have f: "unindexed (c_orders_by_instrument (cache eng)) (client_order_id ord)"
    "unindexed (c_orders_by_strategy (cache eng)) (client_order_id ord)"
    "unindexed (c_orders_by_venue (cache eng)) (client_order_id ord)"
    by (simp_all add: order_unindexed_def)
  have i: "?o1 \<notin> set (Cache_orders (cache ?eng') (Some i) s)" for i s
    unfolding Cache_orders_def c option.case
    by (rule by_ids_update_other [OF unindexed_lookup [OF f(1)] k id])
  have t: "?o1 \<notin> set (Cache_orders (cache ?eng') None (Some s))" for s
    unfolding Cache_orders_def c option.case
    by (rule by_ids_update_other [OF unindexed_lookup [OF f(2)] k id])
  have w: "?o1 \<notin> set (Cache_orders_for_venue (cache ?eng') v)" for v
    unfolding Cache_orders_for_venue_def c
    by (rule by_ids_update_other [OF unindexed_lookup [OF f(3)] k id])
  from s l a i t w show ?thesis by (intro exI [of _ ?eng'] exI [of _ ?o1]) simp
qed


theorem C9_denied_order_unindexed_witness:
  "\<exists>eng' o1.
     ExecutionEngine_submit_order (example_order INITIALIZED (Q1 10) (Q1 0) (Q1 10) 0 [])
       (example_engine ACTIVE [] []) = Inr eng' \<and>
     Cache_order (cache eng') ''O-001'' = Some o1 \<and> status o1 = DENIED \<and>
     o1 \<in> set (Cache_orders (cache eng') None None) \<and>
     o1 \<notin> set (Cache_orders (cache eng') (Some AAPL) None) \<and>
     o1 \<notin> set (Cache_orders (cache eng') None (Some ''S-001'')) \<and>
     o1 \<notin> set (Cache_orders_for_venue (cache eng') ''SIM'')"
proof -
  let ?ord = "example_order INITIALIZED (Q1 10) (Q1 0) (Q1 10) 0 []"
  let ?eng = "example_engine ACTIVE [] []"
  have v: "RiskEngine_validate_order ?eng ?ord =
      Some (OrderDenied ''O-001'' (Text ''Invalid quantity precision 1, expected 0'') 0)"
    by code_simp
  have st: "status ?ord = INITIALIZED" by (simp add: example_order_def)
  have fresh: "order_unindexed (cache ?eng) (client_order_id ?ord)"
    by (simp add: order_unindexed_def unindexed_def example_engine_def)
  have keyed: "orders_keyed_by_id (cache ?eng)"
    by (simp add: orders_keyed_by_id_def example_engine_def)
  have c: "client_order_id ?ord = ''O-001''" by (simp add: example_order_def)
  from C9_denied_order_unindexed [OF v st fresh keyed] show ?thesis
    unfolding c by blast
qed

section \<open>Properties of the matching engine\<close>









lemma open_allows_filled:
  "is_open ord \<Longrightarrow> Order_check_transition (ord\<lparr>filled_qty := a, leaves_qty := b\<rparr>) FILLED = None"
  by (auto simp: is_open_def Order_check_transition_def)

































section \<open>Properties of the backtest driver\<close>

lemma run_loop_curve:
  "run_loop hs data eng curve = Inr (eng', curve') \<Longrightarrow>
   \<exists>xs. curve' = curve @ xs \<and> map fst xs = map datum_ts_event (filter is_bar data)"
proof (induction data arbitrary: eng curve)
  case Nil
  then show ?case by simp
next
  case (Cons d ds)
  from Cons.prems obtain eng1 where p: "process_datum hs d eng = Inr eng1"
    and r: "run_loop hs ds eng1
              (if is_bar d then curve @ [(datum_ts_event d, get_total_balance eng1)] else curve)
            = Inr (eng', curve')"
    by (auto split: sum.splits)
  from Cons.IH [OF r] show ?case by (cases "is_bar d") auto
qed

text \<open>
  C10: for every run that returns and whose first datum, after sorting and range
  filtering, is a bar, the balance curve begins with two entries that bear the bar's
  \<^verbatim>\<open>ts_event\<close>: the total balance after the strategies were started, recorded before
  the loop, and the total balance after the bar was processed. The remaining entries are
  one per later bar, in order, each with that bar's \<^verbatim>\<open>ts_event\<close>; quote and trade
  ticks append none.
\<close>

theorem C10_balance_curve:
  assumes ok: "run hs start end data0 eng = Inr (eng', curve)"
    and first: "run_data start end data0 = DBar bar # rest"
  shows "\<exists>eng1 eng2 xs.
           on_start hs eng = Inr eng1 \<and> process_datum hs (DBar bar) eng1 = Inr eng2 \<and>
           curve = (bar_ts_event bar, get_total_balance eng1) #
                   (bar_ts_event bar, get_total_balance eng2) # xs \<and>
           map fst xs = map datum_ts_event (filter is_bar rest)"
proof -
  from ok first obtain eng1 eng2 where s: "on_start hs eng = Inr eng1"
    and l: "run_loop hs (DBar bar # rest) eng1 [(bar_ts_event bar, get_total_balance eng1)]
            = Inr (eng2, curve)"
    by (auto simp: run_def Let_def split: sum.splits)
  from l obtain eng3 where p: "process_datum hs (DBar bar) eng1 = Inr eng3"
    and r: "run_loop hs rest eng3
              [(bar_ts_event bar, get_total_balance eng1),
               (bar_ts_event bar, get_total_balance eng3)] = Inr (eng2, curve)"
    by (auto split: sum.splits)
  from run_loop_curve [OF r] s p show ?thesis by auto
qed


theorem C10_balance_curve_witness:
  "\<exists>eng1 eng2.
     on_start no_strategy (example_engine ACTIVE [] []) = Inr eng1 \<and>
     process_datum no_strategy (DBar (example_bar 1 100 101 99)) eng1 = Inr eng2 \<and>
     map_sum id snd (run no_strategy None None [DBar (example_bar 1 100 101 99)]
                       (example_engine ACTIVE [] []))
       = Inr [(1, get_total_balance eng1), (1, get_total_balance eng2)]"
proof -
  let ?eng = "example_engine ACTIVE [] []"
  let ?bar = "example_bar 1 100 101 99"
  have r: "map_sum id snd (run no_strategy None None [DBar ?bar] ?eng)
      = Inr [(1, 1000000), (1, 1000000)]"
    by code_simp
  then obtain eng' curve where ok: "run no_strategy None None [DBar ?bar] ?eng = Inr (eng', curve)"
    by (cases "run no_strategy None None [DBar ?bar] ?eng") auto
  have d: "run_data None None [DBar ?bar] = DBar ?bar # []" by (simp add: run_data_def)
  have t: "bar_ts_event ?bar = 1" by (simp add: example_bar_def)
  from C10_balance_curve [OF ok d] obtain eng1 eng2 xs where
    e: "on_start no_strategy ?eng = Inr eng1" "process_datum no_strategy (DBar ?bar) eng1 = Inr eng2"
      "curve = (bar_ts_event ?bar, get_total_balance eng1) #
               (bar_ts_event ?bar, get_total_balance eng2) # xs"
      "map fst xs = map datum_ts_event (filter is_bar [])" by blast
  from e(4) have "xs = []" by simp
  with e ok t show ?thesis by auto
qed

end
